theory Spec2Isabelle
  imports Complex_Main
begin

section \<open>Python values as the quote endpoint sees them\<close>

text \<open>
  The endpoint of \<^verbatim>\<open>api/yfinance.py\<close> reads values handed over by the market-data client
  and applies four things to them: the test \<^verbatim>\<open>is None\<close>, truthiness (through \<^verbatim>\<open>or\<close>),
  the builtin \<^verbatim>\<open>float()\<close>, and float arithmetic. The exceptions that can occur are
  values of \<open>exn\<close>; all of them are subclasses of Python's \<^verbatim>\<open>Exception\<close>, so an
  \<^verbatim>\<open>except Exception\<close> clause catches each of them.
\<close>

datatype exn = TypeError | ValueError | OverflowError | ZeroDivisionError | IndexError
  | UpstreamError

text \<open>
  A Python float is an IEEE 754 binary64 value: a finite number, one of the two
  infinities, or NaN. Finite values are kept as rationals; the two zeros are identified
  (they are equal and both falsy in Python, and nothing below divides by zero).
\<close>

datatype pyfloat = Finite rat | PosInf | NegInf | NaN

function bit_length :: "int \<Rightarrow> nat" where
  "bit_length n = (if n \<le> 0 then 0 else Suc (bit_length (n div 2)))"
  by pat_completeness auto
termination
  by (relation "measure nat") auto

declare bit_length.simps [simp del]

definition pow2 :: "int \<Rightarrow> rat" where
  "pow2 e = (if 0 \<le> e then 2 ^ nat e else 1 / 2 ^ nat (- e))"

text \<open>
  \<open>ilog2 p d\<close> is the exponent of the leading bit of the positive rational \<open>p / d\<close>,
  and \<open>round_div num den\<close> the integer nearest to \<open>num / den\<close>, ties to even.
\<close>

definition ilog2 :: "int \<Rightarrow> int \<Rightarrow> int" where
  "ilog2 p d =
     (let e = int (bit_length p) - int (bit_length d)
      in if (if 0 \<le> e then d * 2 ^ nat e \<le> p else d \<le> p * 2 ^ nat (- e)) then e else e - 1)"

definition round_div :: "int \<Rightarrow> int \<Rightarrow> int" where
  "round_div num den =
     (let n = num div den; r = num mod den
      in if 2 * r < den then n else if den < 2 * r then n + 1
         else if even n then n else n + 1)"

text \<open>
  Rounding of an exact result to binary64, to nearest with ties to even: 53 significant
  bits (the result is \<open>n * 2 ^ (e - 52)\<close> for the exponent \<open>e\<close> of the leading bit),
  subnormals below \<open>2 ^ -1022\<close>, overflow to an infinity from \<open>2 ^ 1024\<close> on.
\<close>

definition fround :: "rat \<Rightarrow> pyfloat" where
  "fround q =
     (if q = 0 then Finite 0
      else
        (case quotient_of \<bar>q\<bar> of (p, d) \<Rightarrow>
           (let e = max (ilog2 p d) (- 1022);
                k = 52 - e;
                n = (if 0 \<le> k then round_div (p * 2 ^ nat k) d
                     else round_div p (d * 2 ^ nat (- k)))
            in if 1023 < e \<or> (e = 1023 \<and> 2 ^ 53 \<le> n)
               then (if 0 < q then PosInf else NegInf)
               else Finite ((if 0 < q then 1 else - 1) * of_int n * pow2 (- k)))))"

text \<open>Float arithmetic and comparison as Python does them on binary64 values.\<close>

fun fsub :: "pyfloat \<Rightarrow> pyfloat \<Rightarrow> pyfloat" where
  "fsub NaN _ = NaN"
| "fsub _ NaN = NaN"
| "fsub (Finite a) (Finite b) = fround (a - b)"
| "fsub (Finite a) PosInf = NegInf"
| "fsub (Finite a) NegInf = PosInf"
| "fsub PosInf PosInf = NaN"
| "fsub PosInf _ = PosInf"
| "fsub NegInf NegInf = NaN"
| "fsub NegInf _ = NegInf"

fun fsign :: "pyfloat \<Rightarrow> int" where
  "fsign (Finite a) = (if 0 < a then 1 else if a < 0 then - 1 else 0)"
| "fsign PosInf = 1"
| "fsign NegInf = - 1"
| "fsign NaN = 0"

definition inf_of_sign :: "int \<Rightarrow> pyfloat" where
  "inf_of_sign s = (if 0 < s then PosInf else NegInf)"

fun fmul :: "pyfloat \<Rightarrow> pyfloat \<Rightarrow> pyfloat" where
  "fmul NaN _ = NaN"
| "fmul _ NaN = NaN"
| "fmul (Finite a) (Finite b) = fround (a * b)"
| "fmul x y =
     (if fsign x = 0 \<or> fsign y = 0 then NaN else inf_of_sign (fsign x * fsign y))"

text \<open>
  True division \<^verbatim>\<open>x / y\<close> on floats raises \<^verbatim>\<open>ZeroDivisionError\<close> for a zero divisor,
  whatever the dividend.
\<close>

fun py_truediv :: "pyfloat \<Rightarrow> pyfloat \<Rightarrow> exn + pyfloat" where
  "py_truediv x (Finite b) =
     (if b = 0 then Inl ZeroDivisionError
      else (case x of
              Finite a \<Rightarrow> Inr (fround (a / b))
            | NaN \<Rightarrow> Inr NaN
            | _ \<Rightarrow> Inr (inf_of_sign (fsign x * fsign (Finite b)))))"
| "py_truediv x NaN = Inr NaN"
| "py_truediv x y =
     (case x of
        Finite a \<Rightarrow> Inr (Finite 0)
      | _ \<Rightarrow> Inr NaN)"

text \<open>\<^verbatim>\<open>x != y\<close> and \<^verbatim>\<open>x > y\<close>: every comparison with NaN but \<^verbatim>\<open>!=\<close> is false.\<close>

definition float_ne :: "pyfloat \<Rightarrow> pyfloat \<Rightarrow> bool" where
  "float_ne x y = (x = NaN \<or> y = NaN \<or> x \<noteq> y)"

fun float_gt :: "pyfloat \<Rightarrow> pyfloat \<Rightarrow> bool" where
  "float_gt NaN _ = False"
| "float_gt _ NaN = False"
| "float_gt (Finite a) (Finite b) = (b < a)"
| "float_gt PosInf y = (y \<noteq> PosInf)"
| "float_gt x NegInf = (x \<noteq> NegInf)"
| "float_gt _ _ = False"

text \<open>
  The values the client can hand over: \<^verbatim>\<open>None\<close>, booleans, integers, floats and
  strings.
\<close>

datatype pyval = PNone | PBool bool | PInt int | PFloat pyfloat | PStr string

fun truthy :: "pyval \<Rightarrow> bool" where
  "truthy PNone = False"
| "truthy (PBool b) = b"
| "truthy (PInt n) = (n \<noteq> 0)"
| "truthy (PFloat x) = (x \<noteq> Finite 0)"
| "truthy (PStr s) = (s \<noteq> [])"

text \<open>\<^verbatim>\<open>a or b\<close> is \<^verbatim>\<open>a\<close> when \<^verbatim>\<open>a\<close> is truthy and \<^verbatim>\<open>b\<close> otherwise.\<close>

definition py_or :: "pyval \<Rightarrow> pyval \<Rightarrow> pyval" where
  "py_or a b = (if truthy a then a else b)"

text \<open>
  The builtin \<^verbatim>\<open>float(value)\<close>. What it makes of a string is decided by Python's
  parser of float literals, which is no part of the repository: it is the parameter
  \<open>str_float\<close>, with \<open>None\<close> for a string that \<^verbatim>\<open>float()\<close> rejects with
  \<^verbatim>\<open>ValueError\<close>. An integer too large for binary64 raises \<^verbatim>\<open>OverflowError\<close>.
\<close>

fun py_float :: "(string \<Rightarrow> pyfloat option) \<Rightarrow> pyval \<Rightarrow> exn + pyfloat" where
  "py_float str_float PNone = Inl TypeError"
| "py_float str_float (PBool b) = Inr (Finite (if b then 1 else 0))"
| "py_float str_float (PInt n) =
     (case fround (of_int n) of
        Finite r \<Rightarrow> Inr (Finite r)
      | _ \<Rightarrow> Inl OverflowError)"
| "py_float str_float (PFloat x) = Inr x"
| "py_float str_float (PStr s) =
     (case str_float s of None \<Rightarrow> Inl ValueError | Some x \<Rightarrow> Inr x)"

subsection \<open>Numeric coercion: \<^verbatim>\<open>as_float\<close>\<close>

text \<open>
  The body of the \<^verbatim>\<open>try\<close> block of \<^verbatim>\<open>as_float\<close>, with the exception of
  \<^verbatim>\<open>float(value)\<close> as a branch, and \<^verbatim>\<open>as_float\<close> itself, whose
  \<^verbatim>\<open>except Exception\<close> clause turns every exception of the body into \<^verbatim>\<open>None\<close>.
\<close>

definition as_float_try :: "(string \<Rightarrow> pyfloat option) \<Rightarrow> pyval \<Rightarrow> exn + pyfloat option" where
  "as_float_try str_float v =
     (if v = PNone then Inr None
      else (case py_float str_float v of
              Inl e \<Rightarrow> Inl e
            | Inr out \<Rightarrow> if float_ne out out then Inr None else Inr (Some out)))"

definition as_float :: "(string \<Rightarrow> pyfloat option) \<Rightarrow> pyval \<Rightarrow> exn + pyfloat option" where
  "as_float str_float v =
     (case as_float_try str_float v of
        Inl e \<Rightarrow> Inr None
      | Inr r \<Rightarrow> Inr r)"

section \<open>Symbol normalisation: \<^verbatim>\<open>unique_symbols\<close>\<close>

text \<open>
  The string of a request is a Python \<^verbatim>\<open>str\<close>: a list of Unicode code points. What
  \<^verbatim>\<open>str.strip\<close> and \<^verbatim>\<open>str.upper\<close> do with it is decided by two tables of Python's
  Unicode database, which is no part of the repository: the predicate \<^verbatim>\<open>str.isspace\<close>
  of a code point, and the full uppercase mapping of a code point, which can be several
  code points (U+00DF becomes \<^verbatim>\<open>SS\<close>). The two tables are the parameter \<open>uc\<close>.
  \<open>ustr\<close> gives the code points of a literal. The strings inside the client's
  values and the keys of its dictionaries stay lists of characters: the endpoint reads
  the dictionaries at the keys of its own literals, and a string value is tested for
  emptiness, handed to \<^verbatim>\<open>float()\<close> or passed on as it is.
\<close>

type_synonym pystr = "nat list"

record unicode =
  isspace :: "nat \<Rightarrow> bool"
  to_upper :: "nat \<Rightarrow> pystr"

definition ustr :: "string \<Rightarrow> pystr" where
  "ustr s = map of_char s"

text \<open>
  \<^verbatim>\<open>s.strip()\<close> removes the leading and the trailing white space, \<^verbatim>\<open>s.upper()\<close> maps
  every code point to its uppercase, \<open>py_split sep s\<close> is \<^verbatim>\<open>s.split(sep)\<close> for a
  separator of one code point, and \<open>py_join sep xs\<close> is \<^verbatim>\<open>sep.join(xs)\<close>.
\<close>

definition py_strip :: "unicode \<Rightarrow> pystr \<Rightarrow> pystr" where
  "py_strip uc s = rev (dropWhile (isspace uc) (rev (dropWhile (isspace uc) s)))"

definition py_upper :: "unicode \<Rightarrow> pystr \<Rightarrow> pystr" where
  "py_upper uc s = concat (map (to_upper uc) s)"

fun py_split :: "nat \<Rightarrow> pystr \<Rightarrow> pystr list" where
  "py_split sep [] = [[]]"
| "py_split sep (c # cs) =
     (if c = sep then [] # py_split sep cs
      else (case py_split sep cs of
              t # ts \<Rightarrow> (c # t) # ts
            | [] \<Rightarrow> [[c]]))"

fun py_join :: "pystr \<Rightarrow> pystr list \<Rightarrow> pystr" where
  "py_join sep [] = []"
| "py_join sep [x] = x"
| "py_join sep (x # y # ys) = x @ sep @ py_join sep (y # ys)"

definition MAX_SYMBOLS :: nat where
  "MAX_SYMBOLS = 220"

text \<open>
  The \<^verbatim>\<open>for\<close> loop of \<^verbatim>\<open>unique_symbols\<close> over the tokens, with its two variables
  \<^verbatim>\<open>seen\<close> and \<^verbatim>\<open>out\<close>.
\<close>

fun unique_symbols_loop :: "unicode \<Rightarrow> pystr list \<Rightarrow> pystr set \<Rightarrow> pystr list \<Rightarrow> pystr list" where
  "unique_symbols_loop uc [] seen out = out"
| "unique_symbols_loop uc (token # tokens) seen out =
     (let symbol = py_upper uc (py_strip uc token)
      in if symbol = [] \<or> symbol \<in> seen then unique_symbols_loop uc tokens seen out
         else unique_symbols_loop uc tokens (insert symbol seen) (out @ [symbol]))"

definition unique_symbols :: "unicode \<Rightarrow> pystr \<Rightarrow> pystr list" where
  "unique_symbols uc raw = unique_symbols_loop uc (py_split (of_char CHR '','') raw) {} []"

text \<open>
  The normalisation as the specification words it: split on the comma, trim and
  uppercase each token, discard the empty ones, keep the first occurrence of each
  symbol, cut after 220 entries.
\<close>

function first_occurrences :: "'a list \<Rightarrow> 'a list" where
  "first_occurrences [] = []"
| "first_occurrences (x # xs) = x # first_occurrences (removeAll x xs)"
  by pat_completeness auto
termination
  by (relation "measure length") (auto simp: less_Suc_eq_le)

definition spec_symbols :: "unicode \<Rightarrow> pystr \<Rightarrow> pystr list" where
  "spec_symbols uc raw =
     take 220
       (first_occurrences
          (filter (\<lambda>s. s \<noteq> [])
             (map (\<lambda>token. py_upper uc (py_strip uc token)) (py_split (of_char CHR '','') raw))))"

section \<open>The market-data client\<close>

text \<open>
  A history is a pandas data frame: the length of its index and its columns, a column
  being the list of its values from the oldest row to the newest. \<open>dropna\<close> removes the
  missing values, \<^verbatim>\<open>None\<close> and NaN.
\<close>

record dataframe =
  index_len :: nat
  columns :: "string \<rightharpoonup> pyval list"

definition is_na :: "pyval \<Rightarrow> bool" where
  "is_na v = (v = PNone \<or> v = PFloat NaN)"

definition dropna :: "pyval list \<Rightarrow> pyval list" where
  "dropna col = filter (\<lambda>v. \<not> is_na v) col"

text \<open>List indexing \<^verbatim>\<open>xs[i]\<close>, a negative index counting from the end.\<close>

definition py_index :: "'a list \<Rightarrow> int \<Rightarrow> exn + 'a" where
  "py_index xs i =
     (let j = (if i < 0 then int (length xs) + i else i)
      in if j < 0 \<or> int (length xs) \<le> j then Inl IndexError else Inr (xs ! nat j))"

text \<open>Sequencing of two steps that can raise: an exception of the first ends both.\<close>

definition then_exn :: "exn + 'a \<Rightarrow> ('a \<Rightarrow> exn + 'b) \<Rightarrow> exn + 'b" where
  "then_exn r f = (case r of Inl e \<Rightarrow> Inl e | Inr x \<Rightarrow> f x)"

definition parse_close_and_prev ::
  "(string \<Rightarrow> pyfloat option) \<Rightarrow> dataframe option
     \<Rightarrow> exn + (pyfloat option \<times> pyfloat option \<times> pyfloat option)" where
  "parse_close_and_prev str_float history =
     (case history of
        None \<Rightarrow> Inr (None, None, None)
      | Some h \<Rightarrow>
          if index_len h = 0 then Inr (None, None, None)
          else
            (let closes = (case columns h ''Close'' of Some col \<Rightarrow> dropna col | None \<Rightarrow> []);
                 volumes = (case columns h ''Volume'' of Some col \<Rightarrow> dropna col | None \<Rightarrow> [])
             in then_exn
                  (if 1 \<le> length closes
                   then then_exn (py_index closes (- 1)) (as_float str_float) else Inr None)
                  (\<lambda>close. then_exn
                     (if 2 \<le> length closes
                      then then_exn (py_index closes (- 2)) (as_float str_float) else Inr None)
                     (\<lambda>prev_close. then_exn
                        (if 1 \<le> length volumes
                         then then_exn (py_index volumes (- 1)) (as_float str_float)
                         else Inr None)
                        (\<lambda>volume. Inr (close, prev_close, volume))))))"

text \<open>
  A ticker handle is what its two accessors do when the endpoint uses them:
  \<open>fast_info\<close> is the outcome of \<^verbatim>\<open>getattr(ticker, "fast_info", {})\<close> followed by
  \<^verbatim>\<open>dict(...)\<close> (an exception, a missing or falsy value, or the mapping), \<open>history\<close>
  the outcome of \<^verbatim>\<open>ticker.history(period="5d", interval="1d", auto_adjust=False)\<close>.
\<close>

record ticker =
  fast_info :: "exn + (string \<rightharpoonup> pyval) option"
  history :: "exn + dataframe option"

text \<open>
  The client gives the handles through its two constructors: \<open>batch\<close> is
  \<^verbatim>\<open>yf.Tickers(joined)\<close> with its dictionary \<^verbatim>\<open>tickers\<close> from symbols to handles, and
  \<open>single\<close> is \<^verbatim>\<open>yf.Ticker(symbol)\<close>. The endpoint calls both outside every
  \<^verbatim>\<open>try\<close> block, and each of them can raise. The calls made to the client are
  recorded as values of \<open>call\<close>.
\<close>

record upstream =
  batch :: "pystr \<Rightarrow> exn + (pystr \<rightharpoonup> ticker)"
  single :: "pystr \<Rightarrow> exn + ticker"

datatype call = NewTickers pystr | NewTicker pystr | FastInfo pystr | History pystr

section \<open>The request handler \<^verbatim>\<open>do_GET\<close>\<close>

text \<open>\<^verbatim>\<open>fast.get(key)\<close>: the value under the key, \<^verbatim>\<open>None\<close> when the key is missing.\<close>

definition dict_get :: "(string \<rightharpoonup> pyval) \<Rightarrow> string \<Rightarrow> pyval" where
  "dict_get d k = (case d k of None \<Rightarrow> PNone | Some v \<Rightarrow> v)"

text \<open>
  The live snapshot: \<^verbatim>\<open>fast = dict(getattr(ticker, "fast_info", {}) or {})\<close> inside
  \<^verbatim>\<open>try\<close>, with \<^verbatim>\<open>fast = {}\<close> in the \<^verbatim>\<open>except Exception\<close> clause.
\<close>

definition snapshot :: "ticker \<Rightarrow> (string \<rightharpoonup> pyval)" where
  "snapshot t =
     (case fast_info t of
        Inl e \<Rightarrow> Map.empty
      | Inr None \<Rightarrow> Map.empty
      | Inr (Some d) \<Rightarrow> d)"

text \<open>
  The four coerced fields read from the snapshot, in the order of the source:
  \<^verbatim>\<open>close\<close>, \<^verbatim>\<open>prev_close\<close>, \<^verbatim>\<open>volume\<close>, \<^verbatim>\<open>market_cap\<close>. In Python
  \<^verbatim>\<open>a or b or c\<close> is \<^verbatim>\<open>(a or b) or c\<close>.
\<close>

definition live_fields ::
  "(string \<Rightarrow> pyfloat option) \<Rightarrow> (string \<rightharpoonup> pyval)
     \<Rightarrow> exn + (pyfloat option \<times> pyfloat option \<times> pyfloat option \<times> pyfloat option)" where
  "live_fields str_float fast =
     then_exn
       (as_float str_float
          (py_or (py_or (dict_get fast ''lastPrice'') (dict_get fast ''last_price''))
             (dict_get fast ''regularMarketPrice'')))
       (\<lambda>close. then_exn
          (as_float str_float
             (py_or (dict_get fast ''previousClose'') (dict_get fast ''previous_close'')))
          (\<lambda>prev_close. then_exn
             (as_float str_float
                (py_or (dict_get fast ''lastVolume'') (dict_get fast ''last_volume'')))
             (\<lambda>volume. then_exn
                (as_float str_float
                   (py_or (dict_get fast ''marketCap'') (dict_get fast ''market_cap'')))
                (\<lambda>market_cap. Inr (close, prev_close, volume, market_cap)))))"

text \<open>
  The \<^verbatim>\<open>try\<close> block entered when \<^verbatim>\<open>close is None\<close>: the history call, the
  extraction, and the three conditional assignments; \<^verbatim>\<open>except Exception: pass\<close> leaves
  the three variables as they were.
\<close>

definition history_fallback ::
  "(string \<Rightarrow> pyfloat option) \<Rightarrow> ticker
     \<Rightarrow> pyfloat option \<times> pyfloat option \<times> pyfloat option
     \<Rightarrow> pyfloat option \<times> pyfloat option \<times> pyfloat option" where
  "history_fallback str_float t vars =
     (case vars of (close, prev_close, volume) \<Rightarrow>
        (case then_exn (history t) (parse_close_and_prev str_float) of
           Inl e \<Rightarrow> (close, prev_close, volume)
         | Inr (h_close, h_prev, h_vol) \<Rightarrow>
             (if close = None then h_close else close,
              if prev_close = None then h_prev else prev_close,
              if volume = None then h_vol else volume)))"

text \<open>
  \<^verbatim>\<open>change_pct\<close>: \<^verbatim>\<open>None\<close> unless \<^verbatim>\<open>prev_close is not None and prev_close > 0\<close>,
  then \<^verbatim>\<open>((close - prev_close) / prev_close) * 100.0\<close>.
\<close>

definition change_pct_of :: "pyfloat \<Rightarrow> pyfloat option \<Rightarrow> exn + pyfloat option" where
  "change_pct_of close prev_close =
     (case prev_close of
        None \<Rightarrow> Inr None
      | Some p \<Rightarrow>
          if float_gt p (Finite 0)
          then then_exn (py_truediv (fsub close p) p) (\<lambda>d. Inr (Some (fmul d (Finite 100))))
          else Inr None)"

text \<open>
  A Quote Record is the dictionary appended to \<^verbatim>\<open>payload\<close>; its numeric fields hold
  a float or \<^verbatim>\<open>None\<close>, \<open>currency\<close> and \<open>exchange\<close> hold whatever the client
  supplied. Below, \<open>symb\<close>, \<open>vol\<close>, \<open>cur\<close> and \<open>exch\<close> stand for the
  source's variables \<^verbatim>\<open>symbol\<close>, \<^verbatim>\<open>volume\<close>, \<^verbatim>\<open>currency\<close> and \<^verbatim>\<open>exchange\<close>.
\<close>

record quote =
  symbol :: pystr
  price :: "pyfloat option"
  previousClose :: "pyfloat option"
  changePct :: "pyfloat option"
  marketCap :: "pyfloat option"
  volume :: "pyfloat option"
  averageVolume :: "pyfloat option"
  high24h :: "pyfloat option"
  low24h :: "pyfloat option"
  currency :: pyval
  exchange :: pyval
  name :: pystr

text \<open>
  The body of the \<^verbatim>\<open>for symbol in symbols\<close> loop for one symbol and its handle: the
  calls made to the client, and an exception, no record (\<^verbatim>\<open>continue\<close>) or the record
  appended to \<^verbatim>\<open>payload\<close>.
\<close>

definition handle_symbol ::
  "(string \<Rightarrow> pyfloat option) \<Rightarrow> ticker \<Rightarrow> pystr \<Rightarrow> call list \<times> (exn + quote option)" where
  "handle_symbol str_float t symb =
     (let fast = snapshot t
      in case live_fields str_float fast of
           Inl e \<Rightarrow> ([FastInfo symb], Inl e)
         | Inr (close0, prev0, volume0, market_cap) \<Rightarrow>
             (let cur = dict_get fast ''currency'';
                  exch = dict_get fast ''exchange'';
                  calls = (if close0 = None then [FastInfo symb, History symb] else [FastInfo symb]);
                  vars = (if close0 = None
                          then history_fallback str_float t (close0, prev0, volume0)
                          else (close0, prev0, volume0))
              in case vars of (close, prev_close, vol) \<Rightarrow>
                   (case close of
                      None \<Rightarrow> (calls, Inr None)
                    | Some c \<Rightarrow>
                        (case change_pct_of c prev_close of
                           Inl e \<Rightarrow> (calls, Inl e)
                         | Inr change_pct \<Rightarrow>
                             (calls,
                              Inr (Some
                                \<lparr>symbol = symb, price = Some c, previousClose = prev_close,
                                 changePct = change_pct, marketCap = market_cap, volume = vol,
                                 averageVolume = None, high24h = None, low24h = None,
                                 currency = py_or cur (PStr ''USD''), exchange = exch,
                                 name = symb\<rparr>))))))"

text \<open>
  The handle for a symbol: \<^verbatim>\<open>tickers.tickers.get(symbol)\<close>, and \<^verbatim>\<open>yf.Ticker(symbol)\<close>
  when that is \<^verbatim>\<open>None\<close>; the constructor can raise.
\<close>

definition ticker_for ::
  "upstream \<Rightarrow> (pystr \<rightharpoonup> ticker) \<Rightarrow> pystr \<Rightarrow> call list \<times> (exn + ticker)" where
  "ticker_for up tickers symb =
     (case tickers symb of
        None \<Rightarrow> ([NewTicker symb], single up symb)
      | Some t \<Rightarrow> ([], Inr t))"

text \<open>
  The loop over the symbols, with the calls made so far and \<^verbatim>\<open>payload\<close>. An exception
  of \<^verbatim>\<open>yf.Ticker(symbol)\<close> is caught nowhere and ends the loop.
\<close>

fun quote_loop ::
  "(string \<Rightarrow> pyfloat option) \<Rightarrow> upstream \<Rightarrow> (pystr \<rightharpoonup> ticker) \<Rightarrow> pystr list
     \<Rightarrow> call list \<Rightarrow> quote list \<Rightarrow> call list \<times> (exn + quote list)" where
  "quote_loop str_float up tickers [] calls payload = (calls, Inr payload)"
| "quote_loop str_float up tickers (symb # rest) calls payload =
     (case ticker_for up tickers symb of
        (cs1, Inl e) \<Rightarrow> (calls @ cs1, Inl e)
      | (cs1, Inr t) \<Rightarrow>
          (case handle_symbol str_float t symb of
             (cs2, Inl e) \<Rightarrow> (calls @ cs1 @ cs2, Inl e)
           | (cs2, Inr None) \<Rightarrow> quote_loop str_float up tickers rest (calls @ cs1 @ cs2) payload
           | (cs2, Inr (Some q)) \<Rightarrow>
               quote_loop str_float up tickers rest (calls @ cs1 @ cs2) (payload @ [q])))"

text \<open>
  The response: status, headers in the order sent, and the value given to
  \<^verbatim>\<open>json.dumps\<close>, either the error dictionary or the list \<^verbatim>\<open>payload\<close>.
\<close>

datatype json_body = ErrorObject "(string \<times> string) list" | QuoteArray "quote list"

record response =
  status :: nat
  headers :: "(string \<times> string) list"
  body :: json_body

text \<open>
  \<open>do_GET\<close> on the first value of the query parameter \<^verbatim>\<open>symbols\<close> as \<^verbatim>\<open>parse_qs\<close>
  gives it (\<open>None\<close> when the parameter is missing): the calls made to the client, and
  an exception or the response written. An exception of \<^verbatim>\<open>yf.Tickers(...)\<close> is
  caught nowhere and ends the request before the loop.
\<close>

definition request_symbols :: "unicode \<Rightarrow> pystr option \<Rightarrow> pystr list" where
  "request_symbols uc param =
     (let raw = py_strip uc (case param of None \<Rightarrow> [] | Some v \<Rightarrow> if v = [] then [] else v)
      in take MAX_SYMBOLS (unique_symbols uc raw))"

definition do_GET ::
  "(string \<Rightarrow> pyfloat option) \<Rightarrow> unicode \<Rightarrow> upstream \<Rightarrow> pystr option
     \<Rightarrow> call list \<times> (exn + response)" where
  "do_GET str_float uc up param =
     (let symbols = request_symbols uc param
      in if symbols = []
         then ([],
               Inr \<lparr>status = 400,
                    headers = [(''Content-Type'', ''application/json; charset=utf-8'')],
                    body = ErrorObject [(''error'', ''missing_symbols'')]\<rparr>)
         else
           (let joined = py_join (ustr '' '') symbols
            in case batch up joined of
                 Inl e \<Rightarrow> ([NewTickers joined], Inl e)
               | Inr tickers \<Rightarrow>
                   (case quote_loop str_float up tickers symbols [NewTickers joined] [] of
                      (calls, Inl e) \<Rightarrow> (calls, Inl e)
                    | (calls, Inr payload) \<Rightarrow>
                        (calls,
                         Inr \<lparr>status = 200,
                              headers = [(''Content-Type'', ''application/json; charset=utf-8''),
                                         (''Cache-Control'',
                                          ''s-maxage=12, stale-while-revalidate=60'')],
                              body = QuoteArray payload\<rparr>))))"

section \<open>Notions of the specification\<close>

text \<open>
  The first non-absent value of a chain of candidates, as the specification words the
  field-name fallbacks, and the value of the Python expression
  \<^verbatim>\<open>v1 or v2 or ... or vn\<close>: the first truthy candidate, the last candidate when none
  is truthy.
\<close>

fun first_present :: "pyval list \<Rightarrow> pyval" where
  "first_present [] = PNone"
| "first_present (v # vs) = (if v = PNone then first_present vs else v)"

fun first_truthy :: "pyval list \<Rightarrow> pyval" where
  "first_truthy [] = PNone"
| "first_truthy [v] = v"
| "first_truthy (v # w # vs) = (if truthy v then v else first_truthy (w # vs))"

text \<open>
  \<open>recent k col\<close> is the non-missing value of a column with \<open>k\<close> non-missing values
  after it: \<open>recent 0\<close> the most recent one, \<open>recent 1\<close> the second-most-recent one.
\<close>

definition recent :: "nat \<Rightarrow> pyval list \<Rightarrow> pyval option" where
  "recent k col =
     (let newest_first = filter (\<lambda>v. \<not> is_na v) (rev col)
      in if k < length newest_first then Some (newest_first ! k) else None)"

text \<open>The coercion of a raw value that may be missing altogether.\<close>

definition coerced :: "(string \<Rightarrow> pyfloat option) \<Rightarrow> pyval option \<Rightarrow> pyfloat option" where
  "coerced str_float r =
     (case r of
        None \<Rightarrow> None
      | Some v \<Rightarrow> (case as_float str_float v of Inl e \<Rightarrow> None | Inr x \<Rightarrow> x))"

text \<open>
  The price of a symbol as the specification resolves it: the live price, and the
  historical close when there is no live price. \<open>historical\<close> is the historical
  close, previous close and volume: nothing when the history call fails or returns no
  rows.
\<close>

definition live_price :: "(string \<Rightarrow> pyfloat option) \<Rightarrow> ticker \<Rightarrow> pyfloat option" where
  "live_price str_float t =
     coerced str_float
       (Some (first_truthy
          (map (dict_get (snapshot t)) [''lastPrice'', ''last_price'', ''regularMarketPrice''])))"

definition live_previous_close :: "(string \<Rightarrow> pyfloat option) \<Rightarrow> ticker \<Rightarrow> pyfloat option" where
  "live_previous_close str_float t =
     coerced str_float
       (Some (first_truthy (map (dict_get (snapshot t)) [''previousClose'', ''previous_close''])))"

definition live_volume :: "(string \<Rightarrow> pyfloat option) \<Rightarrow> ticker \<Rightarrow> pyfloat option" where
  "live_volume str_float t =
     coerced str_float
       (Some (first_truthy (map (dict_get (snapshot t)) [''lastVolume'', ''last_volume''])))"

definition live_market_cap :: "(string \<Rightarrow> pyfloat option) \<Rightarrow> ticker \<Rightarrow> pyfloat option" where
  "live_market_cap str_float t =
     coerced str_float
       (Some (first_truthy (map (dict_get (snapshot t)) [''marketCap'', ''market_cap''])))"

definition historical ::
  "(string \<Rightarrow> pyfloat option) \<Rightarrow> ticker \<Rightarrow> pyfloat option \<times> pyfloat option \<times> pyfloat option" where
  "historical str_float t =
     (case history t of
        Inl e \<Rightarrow> (None, None, None)
      | Inr None \<Rightarrow> (None, None, None)
      | Inr (Some h) \<Rightarrow>
          if index_len h = 0 then (None, None, None)
          else
            (let closes = (case columns h ''Close'' of None \<Rightarrow> [] | Some col \<Rightarrow> col);
                 volumes = (case columns h ''Volume'' of None \<Rightarrow> [] | Some col \<Rightarrow> col)
             in (coerced str_float (recent 0 closes), coerced str_float (recent 1 closes),
                 coerced str_float (recent 0 volumes))))"

definition historical_close :: "(string \<Rightarrow> pyfloat option) \<Rightarrow> ticker \<Rightarrow> pyfloat option" where
  "historical_close str_float t = fst (historical str_float t)"

definition resolved_price :: "(string \<Rightarrow> pyfloat option) \<Rightarrow> ticker \<Rightarrow> pyfloat option" where
  "resolved_price str_float t =
     (case live_price str_float t of
        Some c \<Rightarrow> Some c
      | None \<Rightarrow> historical_close str_float t)"

text \<open>
  The change in percent as the specification gives it: absent unless the previous close
  is present and greater than 0, then \<^verbatim>\<open>((price - previousClose) / previousClose) * 100.0\<close>.
\<close>

definition change_pct :: "pyfloat \<Rightarrow> pyfloat option \<Rightarrow> pyfloat option" where
  "change_pct c prev =
     (case prev of
        None \<Rightarrow> None
      | Some p \<Rightarrow>
          if float_gt p (Finite 0)
          then (case py_truediv (fsub c p) p of
                  Inl e \<Rightarrow> None
                | Inr d \<Rightarrow> Some (fmul d (Finite 100)))
          else None)"

text \<open>
  The previous close and the volume of a record: the live value, and the historical one
  when the history was consulted (no live price) and the live value is absent. The Quote
  Record of a symbol: none without a resolved price.
\<close>

definition final_previous_close :: "(string \<Rightarrow> pyfloat option) \<Rightarrow> ticker \<Rightarrow> pyfloat option" where
  "final_previous_close str_float t =
     (if live_price str_float t = None \<and> live_previous_close str_float t = None
      then fst (snd (historical str_float t)) else live_previous_close str_float t)"

definition final_volume :: "(string \<Rightarrow> pyfloat option) \<Rightarrow> ticker \<Rightarrow> pyfloat option" where
  "final_volume str_float t =
     (if live_price str_float t = None \<and> live_volume str_float t = None
      then snd (snd (historical str_float t)) else live_volume str_float t)"

definition spec_quote :: "(string \<Rightarrow> pyfloat option) \<Rightarrow> ticker \<Rightarrow> pystr \<Rightarrow> quote option" where
  "spec_quote str_float t symb =
     (case resolved_price str_float t of
        None \<Rightarrow> None
      | Some c \<Rightarrow>
          Some \<lparr>symbol = symb, price = Some c,
                previousClose = final_previous_close str_float t,
                changePct = change_pct c (final_previous_close str_float t),
                marketCap = live_market_cap str_float t,
                volume = final_volume str_float t,
                averageVolume = None, high24h = None, low24h = None,
                currency = (if truthy (dict_get (snapshot t) ''currency'')
                            then dict_get (snapshot t) ''currency'' else PStr ''USD''),
                exchange = dict_get (snapshot t) ''exchange'', name = symb\<rparr>)"

text \<open>The records in the body of what \<open>do_GET\<close> returns.\<close>

definition payload_of :: "call list \<times> (exn + response) \<Rightarrow> quote list" where
  "payload_of r =
     (case snd r of
        Inl e \<Rightarrow> []
      | Inr resp \<Rightarrow> (case body resp of ErrorObject kvs \<Rightarrow> [] | QuoteArray qs \<Rightarrow> qs))"

text \<open>
  The handle of a symbol of the request: its entry in the batch made for the symbol list,
  and the handle \<^verbatim>\<open>yf.Ticker\<close> constructs for it when the batch has no entry; an
  exception when the constructor concerned raises. \<open>quote_for\<close> is the record of the
  symbol, from this handle, and \<open>price_for\<close> its resolved price.
\<close>

definition handle_of :: "upstream \<Rightarrow> pystr list \<Rightarrow> pystr \<Rightarrow> exn + ticker" where
  "handle_of up symbols symb =
     (case batch up (py_join (ustr '' '') symbols) of
        Inl e \<Rightarrow> Inl e
      | Inr tickers \<Rightarrow> (case tickers symb of None \<Rightarrow> single up symb | Some t \<Rightarrow> Inr t))"

definition quote_for ::
  "(string \<Rightarrow> pyfloat option) \<Rightarrow> upstream \<Rightarrow> pystr list \<Rightarrow> pystr \<Rightarrow> quote option" where
  "quote_for str_float up symbols symb =
     (case handle_of up symbols symb of
        Inl e \<Rightarrow> None
      | Inr t \<Rightarrow> spec_quote str_float t symb)"

definition price_for ::
  "(string \<Rightarrow> pyfloat option) \<Rightarrow> upstream \<Rightarrow> pystr list \<Rightarrow> pystr \<Rightarrow> pyfloat option" where
  "price_for str_float up symbols symb =
     (case handle_of up symbols symb of
        Inl e \<Rightarrow> None
      | Inr t \<Rightarrow> resolved_price str_float t)"

text \<open>
  The exception that ends a request with the symbols \<open>symbols\<close>, if any: that of the
  first handle, in the order of the symbols, whose constructor raises.
\<close>

fun first_raised :: "(exn + 'a) list \<Rightarrow> exn option" where
  "first_raised [] = None"
| "first_raised (Inl e # rs) = Some e"
| "first_raised (Inr x # rs) = first_raised rs"

definition constructor_failure :: "upstream \<Rightarrow> pystr list \<Rightarrow> exn option" where
  "constructor_failure up symbols = first_raised (map (handle_of up symbols) symbols)"

section \<open>Example inputs\<close>

text \<open>
  What \<^verbatim>\<open>float()\<close> makes of the strings of the examples: \<^verbatim>\<open>"inf"\<close> and \<^verbatim>\<open>"nan"\<close>
  convert, the others (\<^verbatim>\<open>"abc"\<close>, \<^verbatim>\<open>"USD"\<close>) raise \<^verbatim>\<open>ValueError\<close>.
\<close>

definition example_str_float :: "string \<Rightarrow> pyfloat option" where
  "example_str_float s =
     (if s = ''inf'' then Some PosInf else if s = ''nan'' then Some NaN else None)"

text \<open>A snapshot with a zero \<^verbatim>\<open>lastPrice\<close> before a non-zero \<^verbatim>\<open>last_price\<close>.\<close>

definition zero_first_ticker :: ticker where
  "zero_first_ticker =
     \<lparr>fast_info = Inr (Some [''lastPrice'' \<mapsto> PFloat (Finite 0), ''last_price'' \<mapsto> PFloat (Finite 5)]),
      history = Inr None\<rparr>"

text \<open>A snapshot with an infinite \<^verbatim>\<open>previousClose\<close>.\<close>

definition inf_prev_ticker :: ticker where
  "inf_prev_ticker =
     \<lparr>fast_info = Inr (Some [''lastPrice'' \<mapsto> PFloat (Finite 1), ''previousClose'' \<mapsto> PFloat PosInf]),
      history = Inr None\<rparr>"

text \<open>
  The entries of Python's two tables for the code points of the examples: those of ASCII,
  the white space U+0085 and U+00A0, and the letters U+00DF, whose uppercase is
  \<^verbatim>\<open>SS\<close>, and U+00E9, whose uppercase is U+00C9.
\<close>

definition example_unicode :: unicode where
  "example_unicode =
     \<lparr>isspace = (\<lambda>n. (9 \<le> n \<and> n \<le> 13) \<or> (28 \<le> n \<and> n \<le> 32) \<or> n = 133 \<or> n = 160),
      to_upper = (\<lambda>n. if 97 \<le> n \<and> n \<le> 122 then [n - 32]
                       else if n = 223 then [83, 83]
                       else if n = 233 then [201]
                       else [n])\<rparr>"

text \<open>A client whose handle is \<open>t\<close> for every symbol, none of them in the batch.\<close>

definition upstream_of :: "ticker \<Rightarrow> upstream" where
  "upstream_of t = \<lparr>batch = (\<lambda>joined. Inr Map.empty), single = (\<lambda>symb. Inr t)\<rparr>"

text \<open>
  A client with a live quote for \<^verbatim>\<open>AAPL\<close> and a failing snapshot and a two-day history
  for \<^verbatim>\<open>MSFT\<close> in its batch; \<^verbatim>\<open>yf.Ticker\<close> gives a handle with a live quote for
  \<^verbatim>\<open>NVDA\<close> and a handle failing on both accessors for every other symbol.
\<close>

definition aapl_ticker :: ticker where
  "aapl_ticker =
     \<lparr>fast_info = Inr (Some [''lastPrice'' \<mapsto> PFloat (Finite 110), ''previousClose'' \<mapsto> PInt 100,
                              ''currency'' \<mapsto> PStr []]),
      history = Inl UpstreamError\<rparr>"

definition msft_ticker :: ticker where
  "msft_ticker =
     \<lparr>fast_info = Inl UpstreamError,
      history = Inr (Some \<lparr>index_len = 2,
                          columns = [''Close'' \<mapsto> [PFloat (Finite 98), PFloat (Finite 101)],
                                     ''Volume'' \<mapsto> [PInt 1000, PInt 1200]]\<rparr>)\<rparr>"

definition nvda_ticker :: ticker where
  "nvda_ticker =
     \<lparr>fast_info = Inr (Some [''regularMarketPrice'' \<mapsto> PInt 50, ''currency'' \<mapsto> PStr ''EUR'']),
      history = Inl UpstreamError\<rparr>"

definition dead_ticker :: ticker where
  "dead_ticker = \<lparr>fast_info = Inl UpstreamError, history = Inl UpstreamError\<rparr>"

definition example_batch :: "pystr \<Rightarrow> exn + (pystr \<rightharpoonup> ticker)" where
  "example_batch joined = Inr [ustr ''AAPL'' \<mapsto> aapl_ticker, ustr ''MSFT'' \<mapsto> msft_ticker]"

definition example_single :: "pystr \<Rightarrow> exn + ticker" where
  "example_single symb = (if symb = ustr ''NVDA'' then Inr nvda_ticker else Inr dead_ticker)"

definition example_upstream :: upstream where
  "example_upstream = \<lparr>batch = example_batch, single = example_single\<rparr>"

text \<open>
  The same client with a \<^verbatim>\<open>yf.Ticker\<close> that raises for \<^verbatim>\<open>GOOG\<close>, and with a
  \<^verbatim>\<open>yf.Tickers\<close> that raises.
\<close>

definition failing_single_upstream :: upstream where
  "failing_single_upstream =
     \<lparr>batch = example_batch,
      single = (\<lambda>symb. if symb = ustr ''GOOG'' then Inl UpstreamError else example_single symb)\<rparr>"

definition failing_batch_upstream :: upstream where
  "failing_batch_upstream = \<lparr>batch = (\<lambda>joined. Inl UpstreamError), single = example_single\<rparr>"

text \<open>
  260 distinct symbols, \<^verbatim>\<open>A\<close>, \<^verbatim>\<open>AA\<close>, \<^verbatim>\<open>AAA\<close> and so on, and the request
  string that lists them.
\<close>

definition many_symbols :: "pystr list" where
  "many_symbols = map (\<lambda>n. replicate (Suc n) (of_char CHR ''A'')) [0 ..< 260]"

definition many_symbols_raw :: pystr where
  "many_symbols_raw = py_join (ustr '','') many_symbols"

section \<open>Properties of the numeric coercion\<close>

lemma float_ne_self: "float_ne x x = (x = NaN)"
  by (simp add: float_ne_def)

lemma as_float_eq:
  "as_float sf v =
     Inr (if v = PNone then None
          else (case py_float sf v of Inl e \<Rightarrow> None | Inr x \<Rightarrow> if x = NaN then None else Some x))"
  by (simp add: as_float_def as_float_try_def float_ne_self split: sum.splits)

lemma as_float_coerced: "as_float sf v = Inr (coerced sf (Some v))"
  by (simp add: coerced_def as_float_eq)

lemma coerced_not_nan: "coerced sf r \<noteq> Some NaN"
  by (auto simp: coerced_def as_float_eq split: option.splits sum.splits if_splits)

lemma fround_not_nan: "fround q \<noteq> NaN"
  by (auto simp: fround_def Let_def split: prod.splits)

lemma py_truediv_pos: "float_gt p (Finite 0) \<Longrightarrow> \<exists>d. py_truediv x p = Inr d"
  by (cases p; cases x) auto

lemma change_pct_of_Inr: "\<exists>r. change_pct_of c prev = Inr r"
proof (cases prev)
  case None
  then show ?thesis by (simp add: change_pct_of_def)
next
  case (Some p)
  show ?thesis
  proof (cases "float_gt p (Finite 0)")
    case True
    then obtain d where "py_truediv (fsub c p) p = Inr d"
      using py_truediv_pos by blast
    with Some True show ?thesis by (simp add: change_pct_of_def then_exn_def)
  next
    case False
    with Some show ?thesis by (simp add: change_pct_of_def)
  qed
qed

lemma live_fields_eq:
  "live_fields sf fast =
     Inr (coerced sf (Some (first_truthy (map (dict_get fast) [''lastPrice'', ''last_price'', ''regularMarketPrice'']))),
          coerced sf (Some (first_truthy (map (dict_get fast) [''previousClose'', ''previous_close'']))),
          coerced sf (Some (first_truthy (map (dict_get fast) [''lastVolume'', ''last_volume'']))),
          coerced sf (Some (first_truthy (map (dict_get fast) [''marketCap'', ''market_cap'']))))"
  by (simp add: live_fields_def then_exn_def as_float_coerced py_or_def)

lemma handle_symbol_live:
  assumes "live_fields sf (snapshot t) = Inr (Some c, p0, v0, m)"
  shows "\<exists>q. snd (handle_symbol sf t s) = Inr (Some q) \<and> price q = Some c
            \<and> previousClose q = p0 \<and> volume q = v0 \<and> marketCap q = m"
proof -
  obtain r where "change_pct_of c p0 = Inr r"
    using change_pct_of_Inr by blast
  with assms show ?thesis
    by (simp add: handle_symbol_def Let_def)
qed

text \<open>
  C9: \<^verbatim>\<open>as_float\<close> never raises; it returns \<^verbatim>\<open>None\<close> for \<^verbatim>\<open>None\<close>, for a value
  \<^verbatim>\<open>float()\<close> rejects and for NaN only, so that an infinity is returned unchanged and an
  infinite \<^verbatim>\<open>lastPrice\<close> of the snapshot is the \<open>price\<close> of the record emitted.
\<close>

theorem as_float_total_keeps_infinity:
  "(\<exists>r. as_float sf v = Inr r)
   \<and> as_float sf v =
       Inr (if v = PNone then None
            else (case py_float sf v of
                    Inl e \<Rightarrow> None
                  | Inr x \<Rightarrow> if x = NaN then None else Some x))
   \<and> as_float sf (PFloat PosInf) = Inr (Some PosInf)
   \<and> as_float sf (PFloat NegInf) = Inr (Some NegInf)
   \<and> (\<exists>q. snd (handle_symbol sf (t\<lparr>fast_info := Inr (Some (d(''lastPrice'' \<mapsto> PFloat PosInf)))\<rparr>) s)
             = Inr (Some q)
           \<and> price q = Some PosInf)"
proof -
  let ?t = "t\<lparr>fast_info := Inr (Some (d(''lastPrice'' \<mapsto> PFloat PosInf)))\<rparr>"
  have "\<exists>p0 v0 m. live_fields sf (snapshot ?t) = Inr (Some PosInf, p0, v0, m)"
    by (simp add: live_fields_eq snapshot_def dict_get_def coerced_def as_float_eq)
  then obtain p0 v0 m where "live_fields sf (snapshot ?t) = Inr (Some PosInf, p0, v0, m)"
    by blast
  from handle_symbol_live[OF this, of s]
  have "\<exists>q. snd (handle_symbol sf ?t s) = Inr (Some q) \<and> price q = Some PosInf"
    by blast
  then show ?thesis
    by (simp add: as_float_eq)
qed

theorem as_float_total_keeps_infinity_witness:
  "as_float example_str_float (PStr ''inf'') = Inr (Some PosInf)
   \<and> as_float example_str_float (PStr ''nan'') = Inr None
   \<and> as_float example_str_float (PStr ''abc'') = Inr None
   \<and> as_float example_str_float (PFloat NegInf) = Inr (Some NegInf)"
  using as_float_total_keeps_infinity[where sf = example_str_float and v = "PStr ''inf''" and t = dead_ticker
          and d = Map.empty and s = "ustr ''X''"]
        as_float_total_keeps_infinity[where sf = example_str_float and v = "PStr ''nan''" and t = dead_ticker
          and d = Map.empty and s = "ustr ''X''"]
        as_float_total_keeps_infinity[where sf = example_str_float and v = "PStr ''abc''" and t = dead_ticker
          and d = Map.empty and s = "ustr ''X''"]
  by (simp add: example_str_float_def)

section \<open>What the handler computes\<close>

lemma fmul_100_nan: "(fmul x (Finite 100) = NaN) = (x = NaN)"
  by (cases x) (auto simp: fround_not_nan inf_of_sign_def)

lemma change_pct_nan_iff:
  "c \<noteq> NaN \<Longrightarrow> p \<noteq> NaN \<Longrightarrow> (change_pct_of c (Some p) = Inr (Some NaN)) = (p = PosInf)"
  by (cases p; cases c)
     (auto simp: change_pct_of_def then_exn_def inf_of_sign_def fround_not_nan fmul_100_nan
           split: if_splits pyfloat.splits)

lemma index_from_end:
  assumes "k < length xs"
  shows "py_index xs (- 1 - int k) = Inr (rev xs ! k)"
proof -
  have "nat (int (length xs) + (- 1 - int k)) = length xs - Suc k"
    using assms by simp
  moreover have "\<not> int (length xs) + (- 1 - int k) < 0"
    using assms by simp
  ultimately show ?thesis
    using assms by (simp add: py_index_def Let_def rev_nth)
qed

lemma recent_dropna:
  "recent k col = (if k < length (dropna col) then Some (rev (dropna col) ! k) else None)"
  by (simp add: recent_def dropna_def rev_filter[symmetric] Let_def)

lemma last_coerced:
  assumes "i = - 1 - int k" and "n = Suc k"
  shows "(if n \<le> length (dropna col)
          then then_exn (py_index (dropna col) i) (as_float sf) else Inr None)
         = Inr (coerced sf (recent k col))"
proof (cases "k < length (dropna col)")
  case True
  then show ?thesis
    using assms
    by (simp add: recent_dropna index_from_end then_exn_def as_float_coerced Suc_le_eq)
next
  case False
  then show ?thesis
    using assms by (simp add: recent_dropna Suc_le_eq coerced_def)
qed

lemma parse_None: "parse_close_and_prev sf None = Inr (None, None, None)"
  by (simp add: parse_close_and_prev_def)

lemma parse_eq:
  "parse_close_and_prev sf (Some h) =
     Inr (if index_len h = 0 then (None, None, None)
          else (coerced sf (recent 0 (case columns h ''Close'' of None \<Rightarrow> [] | Some col \<Rightarrow> col)),
                coerced sf (recent 1 (case columns h ''Close'' of None \<Rightarrow> [] | Some col \<Rightarrow> col)),
                coerced sf (recent 0 (case columns h ''Volume'' of None \<Rightarrow> [] | Some col \<Rightarrow> col))))"
proof -
  have d: "dropna [] = []" by (simp add: dropna_def)
  have c: "(case cl of None \<Rightarrow> [] | Some col \<Rightarrow> dropna col)
           = dropna (case cl of None \<Rightarrow> [] | Some col \<Rightarrow> col)"
    for cl by (simp add: d split: option.splits)
  have l0: "(if 1 \<le> length (dropna col)
    then then_exn (py_index (dropna col) (- 1)) (as_float sf) else Inr None)
   = Inr (coerced sf (recent 0 col))" for col
    by (rule last_coerced) simp_all
  have l1: "(if 2 \<le> length (dropna col)
    then then_exn (py_index (dropna col) (- 2)) (as_float sf) else Inr None)
   = Inr (coerced sf (recent 1 col))" for col
    by (rule last_coerced) simp_all
  show ?thesis
    unfolding parse_close_and_prev_def Let_def c l0 l1
    by (simp add: then_exn_def)
qed

lemma fallback_eq:
  "(\<exists>e. then_exn (history t) (parse_close_and_prev sf) = Inl e) \<or>
   then_exn (history t) (parse_close_and_prev sf) = Inr (historical sf t)"
proof (cases "history t")
  case (Inl x)
  then show ?thesis by (simp add: then_exn_def historical_def)
next
  case (Inr ho)
  then show ?thesis
    by (cases ho) (simp_all add: then_exn_def historical_def parse_None parse_eq Let_def)
qed

lemma fallback_Inl_historical:
  "then_exn (history t) (parse_close_and_prev sf) = Inl e \<Longrightarrow> historical sf t = (None, None, None)"
proof (cases "history t")
  case (Inl x)
  then show ?thesis by (simp add: historical_def)
next
  case (Inr ho)
  assume "then_exn (history t) (parse_close_and_prev sf) = Inl e"
  with Inr show ?thesis
    by (cases ho) (simp_all add: then_exn_def parse_None parse_eq)
qed

lemma history_fallback_eq:
  "history_fallback sf t (None, p0, v0) =
     (fst (historical sf t),
      if p0 = None then fst (snd (historical sf t)) else p0,
      if v0 = None then snd (snd (historical sf t)) else v0)"
proof (cases "then_exn (history t) (parse_close_and_prev sf)")
  case (Inl e)
  then show ?thesis
    using fallback_Inl_historical[OF Inl] by (simp add: history_fallback_def)
next
  case (Inr r)
  then have "r = historical sf t" using fallback_eq[of t sf] by auto
  with Inr show ?thesis
    by (cases "historical sf t") (simp add: history_fallback_def)
qed


lemma change_pct_of_eq: "change_pct_of c prev = Inr (change_pct c prev)"
proof (cases prev)
  case None
  then show ?thesis by (simp add: change_pct_of_def change_pct_def)
next
  case (Some p)
  show ?thesis
  proof (cases "float_gt p (Finite 0)")
    case True
    then obtain d where "py_truediv (fsub c p) p = Inr d"
      using py_truediv_pos by blast
    with Some True show ?thesis by (simp add: change_pct_of_def change_pct_def then_exn_def)
  next
    case False
    with Some show ?thesis by (simp add: change_pct_of_def change_pct_def)
  qed
qed

lemma handle_symbol_eq:
  assumes "live_fields sf (snapshot t) = Inr (c0, p0, v0, m)"
  shows "handle_symbol sf t s =
    (if c0 = None then [FastInfo s, History s] else [FastInfo s],
     Inr (case (if c0 = None then fst (historical sf t) else c0) of
            None \<Rightarrow> None
          | Some c \<Rightarrow>
              Some \<lparr>symbol = s, price = Some c,
                    previousClose = (if c0 = None \<and> p0 = None then fst (snd (historical sf t)) else p0),
                    changePct = change_pct c (if c0 = None \<and> p0 = None then fst (snd (historical sf t)) else p0),
                    marketCap = m,
                    volume = (if c0 = None \<and> v0 = None then snd (snd (historical sf t)) else v0),
                    averageVolume = None, high24h = None, low24h = None,
                    currency = py_or (dict_get (snapshot t) ''currency'') (PStr ''USD''),
                    exchange = dict_get (snapshot t) ''exchange'', name = s\<rparr>))"
proof (cases c0)
  case None
  with assms show ?thesis
    by (cases p0; cases v0)
       (simp_all add: handle_symbol_def Let_def history_fallback_eq change_pct_of_eq
             split: option.splits)
next
  case (Some c)
  with assms show ?thesis
    by (simp add: handle_symbol_def Let_def change_pct_of_eq)
qed

lemma handle_symbol_Inr: "\<exists>cs r. handle_symbol sf t s = (cs, Inr r)"
proof -
  obtain c0 p0 v0 m where "live_fields sf (snapshot t) = Inr (c0, p0, v0, m)"
    using live_fields_eq by blast
  from handle_symbol_eq[OF this] show ?thesis by blast
qed

lemma live_fields_spec:
  "live_fields sf (snapshot t) =
     Inr (live_price sf t, live_previous_close sf t, live_volume sf t, live_market_cap sf t)"
  by (simp add: live_fields_eq live_price_def live_previous_close_def live_volume_def
        live_market_cap_def)

lemma handle_symbol_spec:
  "handle_symbol sf t s =
     (if live_price sf t = None then [FastInfo s, History s] else [FastInfo s],
      Inr (spec_quote sf t s))"
  unfolding handle_symbol_eq[OF live_fields_spec]
  by (auto simp: spec_quote_def resolved_price_def historical_close_def
        final_previous_close_def final_volume_def py_or_def split: option.splits)

lemma quote_loop_result:
  "snd (quote_loop sf up tickers syms calls payload) =
     (case first_raised (map (\<lambda>s. snd (ticker_for up tickers s)) syms) of
        Some e \<Rightarrow> Inl e
      | None \<Rightarrow>
          Inr (payload @ List.map_filter
                 (\<lambda>s. case snd (ticker_for up tickers s) of
                         Inl e \<Rightarrow> None | Inr t \<Rightarrow> spec_quote sf t s) syms))"
proof (induction syms arbitrary: calls payload)
  case Nil
  show ?case by simp
next
  case (Cons s syms)
  obtain cs1 r where tf: "ticker_for up tickers s = (cs1, r)"
    by (cases "ticker_for up tickers s")
  show ?case
  proof (cases r)
    case (Inl e)
    with tf show ?thesis by simp
  next
    case (Inr t)
    show ?thesis
      by (cases "spec_quote sf t s")
         (simp_all add: tf Inr handle_symbol_spec Cons.IH split: option.splits)
  qed
qed

lemma quote_loop_calls:
  "\<exists>cs. fst (quote_loop sf up tickers syms calls payload) = calls @ cs"
proof (induction syms arbitrary: calls payload)
  case Nil
  show ?case by simp
next
  case (Cons s syms)
  obtain cs1 r where tf: "ticker_for up tickers s = (cs1, r)"
    by (cases "ticker_for up tickers s")
  show ?case
  proof (cases r)
    case (Inl e)
    with tf show ?thesis by simp
  next
    case (Inr t)
    let ?cs2 = "if live_price sf t = None then [FastInfo s, History s] else [FastInfo s]"
    have "\<exists>cs. fst (quote_loop sf up tickers syms (calls @ cs1 @ ?cs2) pl) = (calls @ cs1 @ ?cs2) @ cs"
      for pl by (rule Cons.IH)
    then have "\<exists>cs. fst (quote_loop sf up tickers syms (calls @ cs1 @ ?cs2) pl) = calls @ cs"
      for pl by (metis append.assoc)
    then show ?thesis
      by (cases "spec_quote sf t s") (simp_all add: tf Inr handle_symbol_spec)
  qed
qed

lemma handle_of_ticker_for:
  "batch up (py_join (ustr '' '') syms) = Inr tickers \<Longrightarrow>
     snd (ticker_for up tickers s) = handle_of up syms s"
  by (simp add: handle_of_def ticker_for_def split: option.splits)

lemma first_raised_all_Inl:
  "rs \<noteq> [] \<Longrightarrow> \<forall>r \<in> set rs. r = Inl e \<Longrightarrow> first_raised rs = Some e"
  by (cases rs) auto

lemma do_GET_result:
  "snd (do_GET sf uc up param) =
     (if request_symbols uc param = []
      then Inr \<lparr>status = 400,
                headers = [(''Content-Type'', ''application/json; charset=utf-8'')],
                body = ErrorObject [(''error'', ''missing_symbols'')]\<rparr>
      else (case constructor_failure up (request_symbols uc param) of
              Some e \<Rightarrow> Inl e
            | None \<Rightarrow>
                Inr \<lparr>status = 200,
                     headers = [(''Content-Type'', ''application/json; charset=utf-8''),
                                (''Cache-Control'', ''s-maxage=12, stale-while-revalidate=60'')],
                     body = QuoteArray (List.map_filter
                                          (quote_for sf up (request_symbols uc param))
                                          (request_symbols uc param))\<rparr>))"
proof (cases "request_symbols uc param = []")
  case True
  then show ?thesis by (simp add: do_GET_def)
next
  case False
  let ?syms = "request_symbols uc param"
  show ?thesis
  proof (cases "batch up (py_join (ustr '' '') ?syms)")
    case (Inl e)
    then have "\<forall>r \<in> set (map (handle_of up ?syms) ?syms). r = Inl e"
      by (simp add: handle_of_def)
    with False have "constructor_failure up ?syms = Some e"
      unfolding constructor_failure_def by (intro first_raised_all_Inl) simp_all
    with False Inl show ?thesis by (simp add: do_GET_def)
  next
    case (Inr tickers)
    have h: "(\<lambda>s. snd (ticker_for up tickers s)) = handle_of up ?syms"
      by (simp add: fun_eq_iff handle_of_ticker_for[OF Inr])
    have q: "(\<lambda>s. case snd (ticker_for up tickers s) of
                    Inl e \<Rightarrow> None | Inr t \<Rightarrow> spec_quote sf t s) = quote_for sf up ?syms"
      by (simp add: fun_eq_iff quote_for_def handle_of_ticker_for[OF Inr])
    obtain calls r where ql:
      "quote_loop sf up tickers ?syms [NewTickers (py_join (ustr '' '') ?syms)] [] = (calls, r)"
      by (cases "quote_loop sf up tickers ?syms [NewTickers (py_join (ustr '' '') ?syms)] []")
    have r: "r = (case constructor_failure up ?syms of
                    Some e \<Rightarrow> Inl e
                  | None \<Rightarrow> Inr (List.map_filter (quote_for sf up ?syms) ?syms))"
    proof -
      have "snd (quote_loop sf up tickers ?syms [NewTickers (py_join (ustr '' '') ?syms)] [])
              = (case constructor_failure up ?syms of
                   Some e \<Rightarrow> Inl e
                 | None \<Rightarrow> Inr (List.map_filter (quote_for sf up ?syms) ?syms))"
        unfolding quote_loop_result h q constructor_failure_def
        by (simp split: option.splits)
      then show ?thesis by (simp add: ql)
    qed
    show ?thesis
      using False Inr ql r
      by (cases "constructor_failure up ?syms") (simp_all add: do_GET_def Let_def)
  qed
qed

lemma do_GET_calls: "(fst (do_GET sf uc up param) = []) = (request_symbols uc param = [])"
proof (cases "request_symbols uc param = []")
  case True
  then show ?thesis by (simp add: do_GET_def)
next
  case False
  let ?syms = "request_symbols uc param"
  show ?thesis
  proof (cases "batch up (py_join (ustr '' '') ?syms)")
    case (Inl e)
    with False show ?thesis by (simp add: do_GET_def)
  next
    case (Inr tickers)
    obtain cs where
      "fst (quote_loop sf up tickers ?syms [NewTickers (py_join (ustr '' '') ?syms)] [])
         = [NewTickers (py_join (ustr '' '') ?syms)] @ cs"
      using quote_loop_calls by blast
    with False Inr show ?thesis
      by (auto simp: do_GET_def Let_def split: prod.splits sum.splits)
  qed
qed

lemma do_GET_returns:
  assumes "constructor_failure up (request_symbols uc param) = None"
  shows "\<exists>calls resp. do_GET sf uc up param = (calls, Inr resp)
           \<and> status resp = (if request_symbols uc param = [] then 400 else 200)"
proof -
  have "\<exists>resp. snd (do_GET sf uc up param) = Inr resp
          \<and> status resp = (if request_symbols uc param = [] then 400 else 200)"
    using assms by (simp add: do_GET_result)
  then show ?thesis
    by (cases "do_GET sf uc up param") auto
qed

lemma do_GET_raises:
  "(snd (do_GET sf uc up param) = Inl e) = (constructor_failure up (request_symbols uc param) = Some e)"
proof (cases "request_symbols uc param = []")
  case True
  then show ?thesis by (simp add: do_GET_result constructor_failure_def)
next
  case False
  then show ?thesis
    by (cases "constructor_failure up (request_symbols uc param)") (simp_all add: do_GET_result)
qed

lemma do_GET_payload:
  "payload_of (do_GET sf uc up param) =
     (case constructor_failure up (request_symbols uc param) of
        Some e \<Rightarrow> []
      | None \<Rightarrow> List.map_filter (quote_for sf up (request_symbols uc param))
                  (request_symbols uc param))"
proof (cases "request_symbols uc param = []")
  case True
  then show ?thesis
    by (simp add: payload_of_def do_GET_result constructor_failure_def List.map_filter_def)
next
  case False
  then show ?thesis
    by (cases "constructor_failure up (request_symbols uc param)")
       (simp_all add: payload_of_def do_GET_result)
qed

lemma payload_member:
  assumes "q \<in> set (payload_of (do_GET sf uc up param))"
  shows "\<exists>s \<in> set (request_symbols uc param).
           \<exists>t. handle_of up (request_symbols uc param) s = Inr t \<and> spec_quote sf t s = Some q"
proof -
  from assms have "q \<in> set (List.map_filter (quote_for sf up (request_symbols uc param))
                        (request_symbols uc param))"
    by (cases "constructor_failure up (request_symbols uc param)") (simp_all add: do_GET_payload)
  then obtain s where s: "s \<in> set (request_symbols uc param)"
    and q: "quote_for sf up (request_symbols uc param) s = Some q"
    by (auto simp: List.map_filter_def)
  from q obtain t where "handle_of up (request_symbols uc param) s = Inr t"
    "spec_quote sf t s = Some q"
    by (cases "handle_of up (request_symbols uc param) s") (simp_all add: quote_for_def)
  with s show ?thesis by blast
qed

lemma historical_not_nan:
  "fst (historical sf t) \<noteq> Some NaN" "fst (snd (historical sf t)) \<noteq> Some NaN"
  "snd (snd (historical sf t)) \<noteq> Some NaN"
  by (auto simp: historical_def Let_def coerced_not_nan split: sum.splits option.splits)

lemma resolved_price_not_nan: "resolved_price sf t \<noteq> Some NaN"
  using coerced_not_nan[of sf] historical_not_nan(1)[of sf t]
  by (auto simp: resolved_price_def live_price_def historical_close_def split: option.splits)

lemma final_not_nan:
  "final_previous_close sf t \<noteq> Some NaN" "final_volume sf t \<noteq> Some NaN"
  "live_market_cap sf t \<noteq> Some NaN"
  using historical_not_nan[of sf t]
  by (auto simp: final_previous_close_def final_volume_def live_market_cap_def
        live_previous_close_def live_volume_def coerced_not_nan)

lemma change_pct_nan:
  "c \<noteq> NaN \<Longrightarrow> prev \<noteq> Some NaN \<Longrightarrow> (change_pct c prev = Some NaN) = (prev = Some PosInf)"
proof (cases prev)
  case None
  then show ?thesis by (simp add: change_pct_def)
next
  case (Some p)
  assume "c \<noteq> NaN" "prev \<noteq> Some NaN"
  with Some have "(change_pct_of c (Some p) = Inr (Some NaN)) = (p = PosInf)"
    using change_pct_nan_iff by simp
  with Some show ?thesis by (simp add: change_pct_of_eq)
qed

section \<open>Properties of the records\<close>

lemma spec_quote_fields:
  assumes "spec_quote sf t s = Some q"
  shows "\<exists>c. price q = Some c \<and> c \<noteq> NaN \<and> resolved_price sf t = Some c
           \<and> changePct q = change_pct c (previousClose q)"
    and "previousClose q = final_previous_close sf t"
    and "volume q = final_volume sf t"
    and "marketCap q = live_market_cap sf t"
    and "symbol q = s" and "name q = s"
    and "averageVolume q = None" and "high24h q = None" and "low24h q = None"
    and "currency q = (if truthy (dict_get (snapshot t) ''currency'')
                       then dict_get (snapshot t) ''currency'' else PStr ''USD'')"
    and "exchange q = dict_get (snapshot t) ''exchange''"
  using assms resolved_price_not_nan[of sf t]
  by (auto simp: spec_quote_def split: option.splits)

text \<open>
  C7, as amended: \<^verbatim>\<open>as_float\<close> returns the converted value when the conversion succeeds
  and is not NaN, and \<^verbatim>\<open>None\<close> for \<^verbatim>\<open>None\<close>, a failed conversion and NaN alike; no
  conversion error ends the request, which returns a response whenever the handle
  constructors return, and in every record of the response \<open>price\<close>,
  \<open>previousClose\<close>, \<open>volume\<close> and \<open>marketCap\<close> are never NaN. \<open>changePct\<close>, which
  is computed from them, is NaN exactly when \<open>previousClose\<close> is plus infinity.
\<close>

theorem coerced_fields_never_nan:
  "as_float sf v =
     Inr (if v = PNone then None
          else (case py_float sf v of
                  Inl e \<Rightarrow> None
                | Inr x \<Rightarrow> if x = NaN then None else Some x))
   \<and> as_float sf v \<noteq> Inr (Some NaN)
   \<and> (constructor_failure up (request_symbols uc param) = None \<longrightarrow>
         (\<exists>calls resp. do_GET sf uc up param = (calls, Inr resp)))
   \<and> (\<forall>e. snd (do_GET sf uc up param) = Inl e \<longrightarrow>
             constructor_failure up (request_symbols uc param) = Some e)
   \<and> (\<forall>q \<in> set (payload_of (do_GET sf uc up param)).
         price q \<noteq> Some NaN \<and> previousClose q \<noteq> Some NaN \<and> volume q \<noteq> Some NaN
         \<and> marketCap q \<noteq> Some NaN
         \<and> (changePct q = Some NaN) = (previousClose q = Some PosInf))"
proof -
  have f1: "as_float sf v \<noteq> Inr (Some NaN)"
    using coerced_not_nan[of sf "Some v"] by (simp add: as_float_coerced)
  have f2: "constructor_failure up (request_symbols uc param) = None \<longrightarrow>
         (\<exists>calls resp. do_GET sf uc up param = (calls, Inr resp))"
    using do_GET_returns[of up uc param sf] by blast
  have f3: "\<forall>e. snd (do_GET sf uc up param) = Inl e \<longrightarrow>
             constructor_failure up (request_symbols uc param) = Some e"
    by (simp add: do_GET_raises)
  have "price q \<noteq> Some NaN \<and> previousClose q \<noteq> Some NaN \<and> volume q \<noteq> Some NaN
         \<and> marketCap q \<noteq> Some NaN
         \<and> (changePct q = Some NaN) = (previousClose q = Some PosInf)"
    if "q \<in> set (payload_of (do_GET sf uc up param))" for q
  proof -
    from payload_member[OF that] obtain s t
      where sq: "spec_quote sf t s = Some q"
      by blast
    from spec_quote_fields(1)[OF sq] obtain c
      where c: "price q = Some c" "c \<noteq> NaN" "changePct q = change_pct c (previousClose q)"
      by blast
    have p: "previousClose q \<noteq> Some NaN"
      using spec_quote_fields(2)[OF sq] final_not_nan(1)[of sf t] by simp
    have "volume q \<noteq> Some NaN"
      using spec_quote_fields(3)[OF sq] final_not_nan(2)[of sf t] by simp
    moreover have "marketCap q \<noteq> Some NaN"
      using spec_quote_fields(4)[OF sq] final_not_nan(3)[of sf t] by simp
    moreover have "(changePct q = Some NaN) = (previousClose q = Some PosInf)"
      using change_pct_nan[OF c(2) p] c(3) by simp
    ultimately show ?thesis using c p by simp
  qed
  then have f4: "\<forall>q \<in> set (payload_of (do_GET sf uc up param)).
         price q \<noteq> Some NaN \<and> previousClose q \<noteq> Some NaN \<and> volume q \<noteq> Some NaN
         \<and> marketCap q \<noteq> Some NaN
         \<and> (changePct q = Some NaN) = (previousClose q = Some PosInf)"
    by blast
  show ?thesis
    by (intro conjI) (rule as_float_eq f1 f2 f3 f4)+
qed

theorem coerced_fields_never_nan_witness:
  "as_float example_str_float (PStr ''nan'') = Inr None
   \<and> constructor_failure example_upstream
         (request_symbols example_unicode (Some (ustr ''aapl,msft''))) = None
   \<and> (\<exists>calls resp. do_GET example_str_float example_unicode example_upstream
                        (Some (ustr ''aapl,msft'')) = (calls, Inr resp))
   \<and> length (payload_of (do_GET example_str_float example_unicode example_upstream
                 (Some (ustr ''aapl,msft'')))) = 2
   \<and> list_all (\<lambda>q. price q \<noteq> Some NaN \<and> previousClose q \<noteq> Some NaN
                     \<and> (changePct q = Some NaN) = (previousClose q = Some PosInf))
        (payload_of (do_GET example_str_float example_unicode example_upstream
           (Some (ustr ''aapl,msft''))))"
proof -
  have l: "length (payload_of (do_GET example_str_float example_unicode example_upstream
                 (Some (ustr ''aapl,msft'')))) = 2"
    by code_simp
  have c: "constructor_failure example_upstream
         (request_symbols example_unicode (Some (ustr ''aapl,msft''))) = None"
    by code_simp
  show ?thesis
    using coerced_fields_never_nan[where sf = example_str_float and v = "PStr ''nan''"
            and uc = example_unicode and up = example_upstream
            and param = "Some (ustr ''aapl,msft'')"] l c
    by (simp add: example_str_float_def list_all_iff)
qed

text \<open>
  C7 as first stated fails for an infinite \<^verbatim>\<open>previousClose\<close>: it passes the NaN guard
  and is greater than 0, and \<^verbatim>\<open>((1.0 - inf) / inf) * 100.0\<close> is NaN.
\<close>

theorem changePct_nan_counterexample:
  "payload_of (do_GET example_str_float example_unicode (upstream_of inf_prev_ticker)
     (Some (ustr ''X''))) =
     [\<lparr>symbol = ustr ''X'', price = Some (Finite 1), previousClose = Some PosInf,
       changePct = Some NaN, marketCap = None, volume = None, averageVolume = None,
       high24h = None, low24h = None, currency = PStr ''USD'', exchange = PNone,
       name = ustr ''X''\<rparr>]"
  by code_simp

text \<open>
  C10: in every record of the response \<open>currency\<close> is the upstream currency when that is
  truthy and \<^verbatim>\<open>"USD"\<close> for every falsy one (absent, the empty string, zero,
  \<^verbatim>\<open>False\<close>); it is never the empty string.
\<close>

theorem currency_defaults_for_falsy:
  "(\<forall>q \<in> set (payload_of (do_GET sf uc up param)).
      currency q \<noteq> PStr [] \<and> truthy (currency q)
      \<and> (\<exists>s \<in> set (request_symbols uc param).
            \<exists>t. handle_of up (request_symbols uc param) s = Inr t
              \<and> symbol q = s
              \<and> currency q = py_or (dict_get (snapshot t) ''currency'') (PStr ''USD'')))
   \<and> py_or c (PStr ''USD'') = (if truthy c then c else PStr ''USD'')
   \<and> py_or PNone (PStr ''USD'') = PStr ''USD''
   \<and> py_or (PStr []) (PStr ''USD'') = PStr ''USD''
   \<and> py_or (PInt 0) (PStr ''USD'') = PStr ''USD''
   \<and> py_or (PBool False) (PStr ''USD'') = PStr ''USD''
   \<and> py_or (PFloat (Finite 0)) (PStr ''USD'') = PStr ''USD''"
proof -
  have "currency q \<noteq> PStr [] \<and> truthy (currency q)
      \<and> (\<exists>s \<in> set (request_symbols uc param).
            \<exists>t. handle_of up (request_symbols uc param) s = Inr t
              \<and> symbol q = s
              \<and> currency q = py_or (dict_get (snapshot t) ''currency'') (PStr ''USD''))"
    if "q \<in> set (payload_of (do_GET sf uc up param))" for q
  proof -
    from payload_member[OF that] obtain s t
      where s: "s \<in> set (request_symbols uc param)"
        and h: "handle_of up (request_symbols uc param) s = Inr t"
        and sq: "spec_quote sf t s = Some q"
      by blast
    have cur: "currency q = py_or (dict_get (snapshot t) ''currency'') (PStr ''USD'')"
      using spec_quote_fields(10)[OF sq] by (simp add: py_or_def)
    then have "truthy (currency q)" by (simp add: py_or_def)
    moreover from this have "currency q \<noteq> PStr []" by auto
    ultimately show ?thesis
      using s h cur spec_quote_fields(5)[OF sq] by blast
  qed
  moreover have "py_or c (PStr ''USD'') = (if truthy c then c else PStr ''USD'')"
    "py_or PNone (PStr ''USD'') = PStr ''USD''"
    "py_or (PStr []) (PStr ''USD'') = PStr ''USD''"
    "py_or (PInt 0) (PStr ''USD'') = PStr ''USD''"
    "py_or (PBool False) (PStr ''USD'') = PStr ''USD''"
    "py_or (PFloat (Finite 0)) (PStr ''USD'') = PStr ''USD''"
    by (simp_all add: py_or_def)
  ultimately show ?thesis by blast
qed

theorem currency_defaults_for_falsy_witness:
  "map currency (payload_of (do_GET example_str_float example_unicode example_upstream
       (Some (ustr ''aapl,nvda'')))) = [PStr ''USD'', PStr ''EUR'']
   \<and> dict_get (snapshot aapl_ticker) ''currency'' = PStr []
   \<and> list_all (\<lambda>q. currency q \<noteq> PStr [] \<and> truthy (currency q))
        (payload_of (do_GET example_str_float example_unicode example_upstream
           (Some (ustr ''aapl,nvda''))))"
proof -
  have "map currency (payload_of (do_GET example_str_float example_unicode example_upstream
       (Some (ustr ''aapl,nvda'')))) = [PStr ''USD'', PStr ''EUR'']"
    by code_simp
  moreover have "dict_get (snapshot aapl_ticker) ''currency'' = PStr []"
    by code_simp
  moreover have "\<forall>q \<in> set (payload_of (do_GET example_str_float example_unicode example_upstream
       (Some (ustr ''aapl,nvda'')))).
      currency q \<noteq> PStr [] \<and> truthy (currency q)"
    using currency_defaults_for_falsy[where sf = example_str_float and uc = example_unicode
            and up = example_upstream and param = "Some (ustr ''aapl,nvda'')" and c = PNone]
    by blast
  ultimately show ?thesis
    by (simp only: list_all_iff)
qed

lemma change_pct_example: "change_pct_of (Finite 110) (Some (Finite 100)) = Inr (Some (Finite 10))"
  by code_simp

text \<open>
  C4: no division ends the request (it returns a response whenever the handle
  constructors return, and an exception it ends in is theirs), and in every record of the
  response \<open>changePct\<close> is \<^verbatim>\<open>((price - previousClose) / previousClose) * 100.0\<close> when
  \<open>previousClose\<close> is present and greater than 0, and absent otherwise, also for a
  \<open>previousClose\<close> of 0; a price of 110.0 with a previous close of 100.0 gives 10.0.
\<close>

theorem change_pct_only_for_positive_previous_close:
  "(constructor_failure up (request_symbols uc param) = None \<longrightarrow>
      (\<exists>calls resp. do_GET sf uc up param = (calls, Inr resp)))
   \<and> (\<forall>e. snd (do_GET sf uc up param) = Inl e \<longrightarrow>
             constructor_failure up (request_symbols uc param) = Some e)
   \<and> (\<forall>q \<in> set (payload_of (do_GET sf uc up param)).
        \<exists>c. price q = Some c
          \<and> (\<forall>p. previousClose q = Some p \<and> float_gt p (Finite 0) \<longrightarrow>
                (\<exists>d. py_truediv (fsub c p) p = Inr d \<and> changePct q = Some (fmul d (Finite 100))))
          \<and> ((\<forall>p. previousClose q = Some p \<longrightarrow> \<not> float_gt p (Finite 0)) \<longrightarrow> changePct q = None))
   \<and> change_pct_of (Finite 110) (Some (Finite 100)) = Inr (Some (Finite 10))
   \<and> change_pct_of c0 (Some (Finite 0)) = Inr None
   \<and> change_pct_of c0 None = Inr None
   \<and> (\<exists>r. change_pct_of c0 prev = Inr r)"
proof -
  have "\<exists>c. price q = Some c
          \<and> (\<forall>p. previousClose q = Some p \<and> float_gt p (Finite 0) \<longrightarrow>
                (\<exists>d. py_truediv (fsub c p) p = Inr d \<and> changePct q = Some (fmul d (Finite 100))))
          \<and> ((\<forall>p. previousClose q = Some p \<longrightarrow> \<not> float_gt p (Finite 0)) \<longrightarrow> changePct q = None)"
    if "q \<in> set (payload_of (do_GET sf uc up param))" for q
  proof -
    from payload_member[OF that] obtain s t
      where sq: "spec_quote sf t s = Some q"
      by blast
    from spec_quote_fields(1)[OF sq] obtain c
      where c: "price q = Some c" "changePct q = change_pct c (previousClose q)"
      by blast
    have "\<exists>d. py_truediv (fsub c p) p = Inr d \<and> changePct q = Some (fmul d (Finite 100))"
      if pc: "previousClose q = Some p" and gt: "float_gt p (Finite 0)" for p
    proof -
      obtain d where "py_truediv (fsub c p) p = Inr d"
        using py_truediv_pos[OF gt] by blast
      then show ?thesis using pc gt c(2) by (simp add: change_pct_def)
    qed
    moreover have "changePct q = None"
      if "\<forall>p. previousClose q = Some p \<longrightarrow> \<not> float_gt p (Finite 0)"
      using that c(2) by (cases "previousClose q") (simp_all add: change_pct_def)
    ultimately show ?thesis using c(1) by blast
  qed
  then have f3: "\<forall>q \<in> set (payload_of (do_GET sf uc up param)).
        \<exists>c. price q = Some c
          \<and> (\<forall>p. previousClose q = Some p \<and> float_gt p (Finite 0) \<longrightarrow>
                (\<exists>d. py_truediv (fsub c p) p = Inr d \<and> changePct q = Some (fmul d (Finite 100))))
          \<and> ((\<forall>p. previousClose q = Some p \<longrightarrow> \<not> float_gt p (Finite 0)) \<longrightarrow> changePct q = None)"
    by blast
  have f1: "constructor_failure up (request_symbols uc param) = None \<longrightarrow>
         (\<exists>calls resp. do_GET sf uc up param = (calls, Inr resp))"
    using do_GET_returns[of up uc param sf] by blast
  have f2: "\<forall>e. snd (do_GET sf uc up param) = Inl e \<longrightarrow>
             constructor_failure up (request_symbols uc param) = Some e"
    by (simp add: do_GET_raises)
  have f4: "change_pct_of c0 (Some (Finite 0)) = Inr None"
    and f5: "change_pct_of c0 None = Inr None"
    by (simp_all add: change_pct_of_def)
  show ?thesis
    by (intro conjI) (rule f1 f2 f3 f4 f5 change_pct_example change_pct_of_Inr)+
qed

theorem change_pct_only_for_positive_previous_close_witness:
  "map changePct (payload_of (do_GET example_str_float example_unicode example_upstream
       (Some (ustr ''aapl'')))) = [Some (Finite 10)]
   \<and> map price (payload_of (do_GET example_str_float example_unicode example_upstream
       (Some (ustr ''aapl'')))) = [Some (Finite 110)]
   \<and> map previousClose (payload_of (do_GET example_str_float example_unicode example_upstream
       (Some (ustr ''aapl'')))) = [Some (Finite 100)]
   \<and> change_pct_of (Finite 110) (Some (Finite 100)) = Inr (Some (Finite 10))
   \<and> (\<exists>calls resp. do_GET example_str_float example_unicode example_upstream
                        (Some (ustr ''aapl'')) = (calls, Inr resp))"
proof -
  have "payload_of (do_GET example_str_float example_unicode example_upstream (Some (ustr ''aapl''))) =
     [\<lparr>symbol = ustr ''AAPL'', price = Some (Finite 110), previousClose = Some (Finite 100),
       changePct = Some (Finite 10), marketCap = None, volume = None, averageVolume = None,
       high24h = None, low24h = None, currency = PStr ''USD'', exchange = PNone,
       name = ustr ''AAPL''\<rparr>]"
    by code_simp
  moreover have "constructor_failure example_upstream
         (request_symbols example_unicode (Some (ustr ''aapl''))) = None"
    by code_simp
  ultimately show ?thesis
    using change_pct_only_for_positive_previous_close[where sf = example_str_float
            and uc = example_unicode and up = example_upstream
            and param = "Some (ustr ''aapl'')" and ?c0.0 = "Finite 1" and prev = None]
    by simp
qed

lemma first_truthy_find:
  "first_truthy vs =
     (case find truthy vs of Some v \<Rightarrow> v | None \<Rightarrow> if vs = [] then PNone else last vs)"
  by (induction vs rule: first_truthy.induct) (auto split: option.splits)

text \<open>
  C1, as amended: each field read from the live snapshot is the coercion of the value of
  its \<^verbatim>\<open>or\<close> chain of candidates, which is the first truthy candidate (an absent
  value, a zero, an empty string and \<^verbatim>\<open>False\<close> are passed over alike) and the last
  candidate when none is truthy. A record whose symbol has a live price carries these
  live values.
\<close>

theorem live_fields_first_truthy:
  "live_fields sf fast =
     Inr (coerced sf (Some (first_truthy
            (map (dict_get fast) [''lastPrice'', ''last_price'', ''regularMarketPrice'']))),
          coerced sf (Some (first_truthy
            (map (dict_get fast) [''previousClose'', ''previous_close'']))),
          coerced sf (Some (first_truthy
            (map (dict_get fast) [''lastVolume'', ''last_volume'']))),
          coerced sf (Some (first_truthy
            (map (dict_get fast) [''marketCap'', ''market_cap'']))))
   \<and> first_truthy vs =
       (case find truthy vs of Some v \<Rightarrow> v | None \<Rightarrow> if vs = [] then PNone else last vs)
   \<and> as_float sf v = Inr (coerced sf (Some v))
   \<and> (\<forall>q \<in> set (payload_of (do_GET sf uc up param)).
         \<exists>s \<in> set (request_symbols uc param).
           \<exists>t. handle_of up (request_symbols uc param) s = Inr t
             \<and> symbol q = s
             \<and> marketCap q = live_market_cap sf t
             \<and> (live_price sf t \<noteq> None \<longrightarrow>
                   price q = live_price sf t
                   \<and> previousClose q = live_previous_close sf t
                   \<and> volume q = live_volume sf t))"
proof -
  have "\<exists>s \<in> set (request_symbols uc param).
           \<exists>t. handle_of up (request_symbols uc param) s = Inr t
             \<and> symbol q = s
             \<and> marketCap q = live_market_cap sf t
             \<and> (live_price sf t \<noteq> None \<longrightarrow>
                   price q = live_price sf t
                   \<and> previousClose q = live_previous_close sf t
                   \<and> volume q = live_volume sf t)"
    if "q \<in> set (payload_of (do_GET sf uc up param))" for q
  proof -
    from payload_member[OF that] obtain s t
      where s: "s \<in> set (request_symbols uc param)"
        and h: "handle_of up (request_symbols uc param) s = Inr t"
        and sq: "spec_quote sf t s = Some q"
      by blast
    from spec_quote_fields(1)[OF sq] obtain c
      where c: "price q = Some c" "resolved_price sf t = Some c" by blast
    have "price q = live_price sf t \<and> previousClose q = live_previous_close sf t
          \<and> volume q = live_volume sf t"
      if "live_price sf t \<noteq> None"
      using that c spec_quote_fields(2,3)[OF sq]
      by (auto simp: resolved_price_def final_previous_close_def final_volume_def)
    then show ?thesis
      using s h spec_quote_fields(4,5)[OF sq] by blast
  qed
  then show ?thesis
    using live_fields_eq[of sf fast] first_truthy_find[of vs] as_float_coerced[of sf v]
    by blast
qed

theorem live_fields_first_truthy_witness:
  "live_fields example_str_float (snapshot zero_first_ticker) = Inr (Some (Finite 5), None, None, None)
   \<and> first_truthy [PFloat (Finite 0), PFloat (Finite 5), PNone] = PFloat (Finite 5)
   \<and> first_truthy [PNone, PNone, PFloat (Finite 0)] = PFloat (Finite 0)
   \<and> map price (payload_of (do_GET example_str_float example_unicode example_upstream
        (Some (ustr ''aapl'')))) = [Some (Finite 110)]
   \<and> live_price example_str_float aapl_ticker = Some (Finite 110)"
proof -
  have "map price (payload_of (do_GET example_str_float example_unicode example_upstream
        (Some (ustr ''aapl'')))) = [Some (Finite 110)]"
    by code_simp
  moreover have "live_price example_str_float aapl_ticker = Some (Finite 110)"
    by code_simp
  moreover have "live_fields example_str_float (snapshot zero_first_ticker) = Inr (Some (Finite 5), None, None, None)"
    by code_simp
  ultimately show ?thesis
    using live_fields_first_truthy[where sf = example_str_float and fast = "snapshot zero_first_ticker"
            and vs = "[PFloat (Finite 0), PFloat (Finite 5), PNone]" and v = PNone
            and uc = example_unicode and up = example_upstream and param = "Some (ustr ''aapl'')"]
          live_fields_first_truthy[where sf = example_str_float and fast = "snapshot zero_first_ticker"
            and vs = "[PNone, PNone, PFloat (Finite 0)]" and v = PNone
            and uc = example_unicode and up = example_upstream and param = "Some (ustr ''aapl'')"]
    by simp
qed

text \<open>
  C1 as first stated fails for a zero \<^verbatim>\<open>lastPrice\<close> before a \<^verbatim>\<open>last_price\<close> of 5.0:
  the first non-absent candidate is the zero, and the price of the record is 5.0.
\<close>

theorem first_present_counterexample:
  "payload_of (do_GET example_str_float example_unicode (upstream_of zero_first_ticker)
     (Some (ustr ''X''))) =
     [\<lparr>symbol = ustr ''X'', price = Some (Finite 5), previousClose = None,
       changePct = None, marketCap = None, volume = None, averageVolume = None,
       high24h = None, low24h = None, currency = PStr ''USD'', exchange = PNone,
       name = ustr ''X''\<rparr>]
   \<and> dict_get (snapshot zero_first_ticker) ''lastPrice'' = PFloat (Finite 0)
   \<and> first_present (map (dict_get (snapshot zero_first_ticker))
         [''lastPrice'', ''last_price'', ''regularMarketPrice'']) = PFloat (Finite 0)
   \<and> as_float example_str_float (PFloat (Finite 0)) = Inr (Some (Finite 0))"
  by code_simp

section \<open>Upstream failures and the response\<close>

lemma snapshot_raises: "snapshot (t\<lparr>fast_info := Inl e\<rparr>) = Map.empty"
  by (simp add: snapshot_def)

lemma snapshot_empty: "snapshot (t\<lparr>fast_info := Inr (Some Map.empty)\<rparr>) = Map.empty"
  by (simp add: snapshot_def)

lemma handle_symbol_cong:
  assumes snap: "snapshot t = snapshot t'" and hist: "historical sf t = historical sf t'"
  shows "handle_symbol sf t s = handle_symbol sf t' s"
proof -
  have lp: "live_price sf t = live_price sf t'"
    and lc: "live_previous_close sf t = live_previous_close sf t'"
    and lv: "live_volume sf t = live_volume sf t'"
    and lm: "live_market_cap sf t = live_market_cap sf t'"
    by (simp_all only: live_price_def live_previous_close_def live_volume_def
          live_market_cap_def snap)
  have rp: "resolved_price sf t = resolved_price sf t'"
    by (simp only: resolved_price_def historical_close_def lp hist)
  have fc: "final_previous_close sf t = final_previous_close sf t'"
    and fv: "final_volume sf t = final_volume sf t'"
    by (simp_all only: final_previous_close_def final_volume_def lp lc lv hist)
  have "spec_quote sf t s = spec_quote sf t' s"
    by (simp only: spec_quote_def rp fc fv lm snap)
  then show ?thesis
    by (simp only: handle_symbol_spec lp)
qed

text \<open>
  C8, as amended: a snapshot access that raises is an empty snapshot, with all four live
  fields absent, and a history call that raises is a history call without data; the loop
  body never raises for a handle it has. So no failure of the two accessors ends the
  request: whenever the handle constructors return, the status is 200 for a request with
  a symbol and the records are those of the symbols one by one, each from its own
  handle. The request ends in an exception exactly when \<^verbatim>\<open>yf.Tickers\<close>, or
  \<^verbatim>\<open>yf.Ticker\<close> for a symbol the batch lacks, raises, and then with that exception.
\<close>

theorem upstream_errors_are_no_data:
  "handle_symbol sf (t\<lparr>fast_info := Inl e\<rparr>) s
     = handle_symbol sf (t\<lparr>fast_info := Inr (Some Map.empty)\<rparr>) s
   \<and> live_fields sf (snapshot (t\<lparr>fast_info := Inl e\<rparr>)) = Inr (None, None, None, None)
   \<and> handle_symbol sf (t\<lparr>history := Inl e\<rparr>) s = handle_symbol sf (t\<lparr>history := Inr None\<rparr>) s
   \<and> historical sf (t\<lparr>history := Inl e\<rparr>) = (None, None, None)
   \<and> (\<exists>cs r. handle_symbol sf t s = (cs, Inr r))
   \<and> (constructor_failure up (request_symbols uc param) = None \<longrightarrow>
         (\<exists>calls resp. do_GET sf uc up param = (calls, Inr resp)
            \<and> status resp = (if request_symbols uc param = [] then 400 else 200))
         \<and> payload_of (do_GET sf uc up param)
             = List.map_filter (quote_for sf up (request_symbols uc param))
                 (request_symbols uc param))
   \<and> (snd (do_GET sf uc up param) = Inl e)
       = (constructor_failure up (request_symbols uc param) = Some e)
   \<and> constructor_failure up syms = first_raised (map (handle_of up syms) syms)
   \<and> handle_of up syms s =
       (case batch up (py_join (ustr '' '') syms) of
          Inl e \<Rightarrow> Inl e
        | Inr tickers \<Rightarrow> (case tickers s of None \<Rightarrow> single up s | Some t \<Rightarrow> Inr t))
   \<and> (handle_of up syms s = Inr t \<longrightarrow>
         snd (handle_symbol sf t s) = Inr (quote_for sf up syms s))"
proof -
  have f1: "handle_symbol sf (t\<lparr>fast_info := Inl e\<rparr>) s
     = handle_symbol sf (t\<lparr>fast_info := Inr (Some Map.empty)\<rparr>) s"
    by (rule handle_symbol_cong) (simp_all add: snapshot_def historical_def)
  have f2: "live_fields sf (snapshot (t\<lparr>fast_info := Inl e\<rparr>)) = Inr (None, None, None, None)"
    by (simp add: live_fields_eq snapshot_raises dict_get_def coerced_def as_float_eq)
  have f3: "handle_symbol sf (t\<lparr>history := Inl e\<rparr>) s = handle_symbol sf (t\<lparr>history := Inr None\<rparr>) s"
    by (rule handle_symbol_cong) (simp_all add: snapshot_def historical_def)
  have f4: "historical sf (t\<lparr>history := Inl e\<rparr>) = (None, None, None)"
    by (simp add: historical_def)
  have f5: "constructor_failure up (request_symbols uc param) = None \<longrightarrow>
         (\<exists>calls resp. do_GET sf uc up param = (calls, Inr resp)
            \<and> status resp = (if request_symbols uc param = [] then 400 else 200))
         \<and> payload_of (do_GET sf uc up param)
             = List.map_filter (quote_for sf up (request_symbols uc param))
                 (request_symbols uc param)"
    using do_GET_returns[of up uc param sf] by (simp add: do_GET_payload)
  have f6: "handle_of up syms s = Inr t \<longrightarrow>
         snd (handle_symbol sf t s) = Inr (quote_for sf up syms s)"
    by (simp add: quote_for_def handle_symbol_spec)
  show ?thesis
    by (intro conjI)
       (rule f1 f2 f3 f4 f5 f6 handle_symbol_Inr do_GET_raises constructor_failure_def
          handle_of_def)+
qed

theorem upstream_errors_are_no_data_witness:
  "map symbol (payload_of (do_GET example_str_float example_unicode example_upstream
       (Some (ustr ''aapl,goog,msft''))))
     = [ustr ''AAPL'', ustr ''MSFT'']
   \<and> constructor_failure example_upstream
         (request_symbols example_unicode (Some (ustr ''aapl,goog,msft''))) = None
   \<and> (\<exists>calls resp. do_GET example_str_float example_unicode example_upstream
                        (Some (ustr ''aapl,goog,msft'')) = (calls, Inr resp)
          \<and> status resp = 200)
   \<and> fast_info msft_ticker = Inl UpstreamError
   \<and> history aapl_ticker = Inl UpstreamError
   \<and> handle_symbol example_str_float (dead_ticker\<lparr>fast_info := Inl UpstreamError\<rparr>) (ustr ''GOOG'')
       = ([FastInfo (ustr ''GOOG''), History (ustr ''GOOG'')], Inr None)"
proof -
  have p: "map symbol (payload_of (do_GET example_str_float example_unicode example_upstream
       (Some (ustr ''aapl,goog,msft''))))
     = [ustr ''AAPL'', ustr ''MSFT'']"
    by code_simp
  have c: "constructor_failure example_upstream
         (request_symbols example_unicode (Some (ustr ''aapl,goog,msft''))) = None"
    by code_simp
  have n: "request_symbols example_unicode (Some (ustr ''aapl,goog,msft'')) \<noteq> []"
    by code_simp
  have h: "handle_symbol example_str_float (dead_ticker\<lparr>fast_info := Inr (Some Map.empty)\<rparr>) (ustr ''GOOG'')
       = ([FastInfo (ustr ''GOOG''), History (ustr ''GOOG'')], Inr None)"
    by code_simp
  show ?thesis
    using upstream_errors_are_no_data[where sf = example_str_float and t = dead_ticker
            and e = UpstreamError and s = "ustr ''GOOG''" and uc = example_unicode
            and up = example_upstream and param = "Some (ustr ''aapl,goog,msft'')"
            and syms = "[]"] p c n h
    by (simp add: msft_ticker_def aapl_ticker_def)
qed

text \<open>
  C8 as first stated fails for an error of \<^verbatim>\<open>yf.Ticker(symbol)\<close>, which is called for
  a symbol the batch lacks and outside every \<^verbatim>\<open>try\<close>: its exception for \<^verbatim>\<open>GOOG\<close>
  ends the request after the snapshot of \<^verbatim>\<open>AAPL\<close>, without a response and before
  \<^verbatim>\<open>MSFT\<close> is looked at, although both have a price.
\<close>

theorem constructor_error_aborts_counterexample:
  "do_GET example_str_float example_unicode failing_single_upstream (Some (ustr ''aapl,goog,msft''))
     = ([NewTickers (ustr ''AAPL GOOG MSFT''), FastInfo (ustr ''AAPL''), NewTicker (ustr ''GOOG'')],
        Inl UpstreamError)
   \<and> single failing_single_upstream (ustr ''GOOG'') = Inl UpstreamError
   \<and> map symbol (payload_of (do_GET example_str_float example_unicode example_upstream
         (Some (ustr ''aapl,goog,msft''))))
       = [ustr ''AAPL'', ustr ''MSFT'']"
proof -
  have "do_GET example_str_float example_unicode failing_single_upstream (Some (ustr ''aapl,goog,msft''))
     = ([NewTickers (ustr ''AAPL GOOG MSFT''), FastInfo (ustr ''AAPL''), NewTicker (ustr ''GOOG'')],
        Inl UpstreamError)"
    by code_simp
  moreover have "single failing_single_upstream (ustr ''GOOG'') = Inl UpstreamError"
    by (simp add: failing_single_upstream_def)
  moreover have "map symbol (payload_of (do_GET example_str_float example_unicode example_upstream
         (Some (ustr ''aapl,goog,msft''))))
       = [ustr ''AAPL'', ustr ''MSFT'']"
    by code_simp
  ultimately show ?thesis by simp
qed

lemma spec_quote_None: "(spec_quote sf t s = None) = (resolved_price sf t = None)"
  by (simp add: spec_quote_def split: option.splits)

lemma quote_for_None: "(quote_for sf up ss s = None) = (price_for sf up ss s = None)"
  by (simp add: quote_for_def price_for_def spec_quote_None split: sum.splits)

lemma map_symbol_payload:
  "map symbol (List.map_filter (quote_for sf up ss) syms)
     = filter (\<lambda>s. price_for sf up ss s \<noteq> None) syms"
  by (induction syms)
     (auto simp: quote_for_def price_for_def spec_quote_def split: option.splits sum.splits)

lemma map_price_payload:
  "map price (List.map_filter (quote_for sf up ss) syms)
     = map (price_for sf up ss) (filter (\<lambda>s. price_for sf up ss s \<noteq> None) syms)"
  by (induction syms)
     (auto simp: quote_for_def price_for_def spec_quote_def split: option.splits sum.splits)

text \<open>
  C2, as amended: for a request with at least one symbol whose handle constructors
  return, the response has status 200 and its body is the list of the Quote Records of
  the symbols whose price resolved, from the live snapshot or the historical fallback, in
  the order of the symbol list; a symbol without a resolved price has no record, so the
  body is as long as there are resolvable symbols. The handle of a symbol is its entry in
  the batch, and the one \<^verbatim>\<open>yf.Ticker\<close> constructs when the batch has none. When a
  constructor raises, the request ends with its exception and no body is written.
\<close>

theorem payload_is_resolved_symbols_in_order:
  "(request_symbols uc param \<noteq> []
      \<and> constructor_failure up (request_symbols uc param) = None \<longrightarrow>
     (\<exists>calls. do_GET sf uc up param =
        (calls,
         Inr \<lparr>status = 200,
              headers = [(''Content-Type'', ''application/json; charset=utf-8''),
                         (''Cache-Control'', ''s-maxage=12, stale-while-revalidate=60'')],
              body = QuoteArray (payload_of (do_GET sf uc up param))\<rparr>))
     \<and> payload_of (do_GET sf uc up param)
         = map (\<lambda>s. the (quote_for sf up (request_symbols uc param) s))
             (filter (\<lambda>s. price_for sf up (request_symbols uc param) s \<noteq> None)
                (request_symbols uc param))
     \<and> map symbol (payload_of (do_GET sf uc up param))
         = filter (\<lambda>s. price_for sf up (request_symbols uc param) s \<noteq> None)
             (request_symbols uc param)
     \<and> map price (payload_of (do_GET sf uc up param))
         = map (price_for sf up (request_symbols uc param))
             (filter (\<lambda>s. price_for sf up (request_symbols uc param) s \<noteq> None)
                (request_symbols uc param))
     \<and> length (payload_of (do_GET sf uc up param))
         = length (filter (\<lambda>s. price_for sf up (request_symbols uc param) s \<noteq> None)
                     (request_symbols uc param)))
   \<and> (\<forall>e. constructor_failure up (request_symbols uc param) = Some e \<longrightarrow>
             snd (do_GET sf uc up param) = Inl e)
   \<and> handle_of up syms s =
       (case batch up (py_join (ustr '' '') syms) of
          Inl e \<Rightarrow> Inl e
        | Inr tickers \<Rightarrow> (case tickers s of None \<Rightarrow> single up s | Some t \<Rightarrow> Inr t))
   \<and> (batch up (py_join (ustr '' '') syms) = Inr tickers \<longrightarrow>
         snd (ticker_for up tickers s) = handle_of up syms s)
   \<and> (handle_of up syms s = Inr t \<longrightarrow>
         quote_for sf up syms s = spec_quote sf t s
         \<and> price_for sf up syms s = resolved_price sf t)
   \<and> snd (handle_symbol sf t s) = Inr (spec_quote sf t s)
   \<and> (spec_quote sf t s = None) = (resolved_price sf t = None)
   \<and> (snd (handle_symbol sf t s) = Inr None) = (resolved_price sf t = None)
   \<and> resolved_price sf t =
       (case live_price sf t of Some c \<Rightarrow> Some c | None \<Rightarrow> fst (historical sf t))"
proof -
  let ?syms = "request_symbols uc param"
  let ?ok = "\<lambda>s. price_for sf up ?syms s \<noteq> None"
  have main: "?syms \<noteq> [] \<and> constructor_failure up ?syms = None \<longrightarrow>
     (\<exists>calls. do_GET sf uc up param =
        (calls,
         Inr \<lparr>status = 200,
              headers = [(''Content-Type'', ''application/json; charset=utf-8''),
                         (''Cache-Control'', ''s-maxage=12, stale-while-revalidate=60'')],
              body = QuoteArray (payload_of (do_GET sf uc up param))\<rparr>))
     \<and> payload_of (do_GET sf uc up param)
         = map (\<lambda>s. the (quote_for sf up ?syms s)) (filter ?ok ?syms)
     \<and> map symbol (payload_of (do_GET sf uc up param)) = filter ?ok ?syms
     \<and> map price (payload_of (do_GET sf uc up param))
         = map (price_for sf up ?syms) (filter ?ok ?syms)
     \<and> length (payload_of (do_GET sf uc up param)) = length (filter ?ok ?syms)"
  proof
    assume a: "?syms \<noteq> [] \<and> constructor_failure up ?syms = None"
    then have pl: "payload_of (do_GET sf uc up param)
                     = List.map_filter (quote_for sf up ?syms) ?syms"
      by (simp add: do_GET_payload)
    have "snd (do_GET sf uc up param) =
         Inr \<lparr>status = 200,
              headers = [(''Content-Type'', ''application/json; charset=utf-8''),
                         (''Cache-Control'', ''s-maxage=12, stale-while-revalidate=60'')],
              body = QuoteArray (payload_of (do_GET sf uc up param))\<rparr>"
      using a by (simp add: do_GET_result pl)
    then have g1: "\<exists>calls. do_GET sf uc up param =
        (calls,
         Inr \<lparr>status = 200,
              headers = [(''Content-Type'', ''application/json; charset=utf-8''),
                         (''Cache-Control'', ''s-maxage=12, stale-while-revalidate=60'')],
              body = QuoteArray (payload_of (do_GET sf uc up param))\<rparr>)"
      by (cases "do_GET sf uc up param") simp
    have g2: "payload_of (do_GET sf uc up param)
         = map (\<lambda>s. the (quote_for sf up ?syms s)) (filter ?ok ?syms)"
      by (simp add: pl List.map_filter_def quote_for_None comp_def)
    have g3: "map symbol (payload_of (do_GET sf uc up param)) = filter ?ok ?syms"
      by (simp only: pl map_symbol_payload)
    have g4: "map price (payload_of (do_GET sf uc up param))
         = map (price_for sf up ?syms) (filter ?ok ?syms)"
      by (simp only: pl map_price_payload)
    have g5: "length (payload_of (do_GET sf uc up param)) = length (filter ?ok ?syms)"
      using arg_cong[OF g3, of length] by simp
    show "(\<exists>calls. do_GET sf uc up param =
        (calls,
         Inr \<lparr>status = 200,
              headers = [(''Content-Type'', ''application/json; charset=utf-8''),
                         (''Cache-Control'', ''s-maxage=12, stale-while-revalidate=60'')],
              body = QuoteArray (payload_of (do_GET sf uc up param))\<rparr>))
     \<and> payload_of (do_GET sf uc up param)
         = map (\<lambda>s. the (quote_for sf up ?syms s)) (filter ?ok ?syms)
     \<and> map symbol (payload_of (do_GET sf uc up param)) = filter ?ok ?syms
     \<and> map price (payload_of (do_GET sf uc up param))
         = map (price_for sf up ?syms) (filter ?ok ?syms)
     \<and> length (payload_of (do_GET sf uc up param)) = length (filter ?ok ?syms)"
      by (intro conjI) (rule g1 g2 g3 g4 g5)+
  qed
  have f2: "\<forall>e. constructor_failure up ?syms = Some e \<longrightarrow> snd (do_GET sf uc up param) = Inl e"
    by (simp add: do_GET_raises)
  have f3: "batch up (py_join (ustr '' '') syms) = Inr tickers \<longrightarrow>
         snd (ticker_for up tickers s) = handle_of up syms s"
    using handle_of_ticker_for by blast
  have f4: "handle_of up syms s = Inr t \<longrightarrow>
         quote_for sf up syms s = spec_quote sf t s
         \<and> price_for sf up syms s = resolved_price sf t"
    by (simp add: quote_for_def price_for_def)
  have f5: "snd (handle_symbol sf t s) = Inr (spec_quote sf t s)"
    by (simp add: handle_symbol_spec)
  have f6: "(snd (handle_symbol sf t s) = Inr None) = (resolved_price sf t = None)"
    by (simp add: handle_symbol_spec spec_quote_None)
  have f7: "resolved_price sf t =
       (case live_price sf t of Some c \<Rightarrow> Some c | None \<Rightarrow> fst (historical sf t))"
    by (simp add: resolved_price_def historical_close_def split: option.splits)
  show ?thesis
    by (intro conjI) (rule main f2 f3 f4 f5 f6 f7 handle_of_def spec_quote_None)+
qed

theorem payload_is_resolved_symbols_in_order_witness:
  "request_symbols example_unicode (Some (ustr ''aapl,goog,nvda,msft''))
     = [ustr ''AAPL'', ustr ''GOOG'', ustr ''NVDA'', ustr ''MSFT'']
   \<and> constructor_failure example_upstream
         (request_symbols example_unicode (Some (ustr ''aapl,goog,nvda,msft''))) = None
   \<and> map symbol (payload_of (do_GET example_str_float example_unicode example_upstream
         (Some (ustr ''aapl,goog,nvda,msft''))))
       = [ustr ''AAPL'', ustr ''NVDA'', ustr ''MSFT'']
   \<and> map price (payload_of (do_GET example_str_float example_unicode example_upstream
         (Some (ustr ''aapl,goog,nvda,msft''))))
       = [Some (Finite 110), Some (Finite 50), Some (Finite 101)]
   \<and> filter (\<lambda>s. price_for example_str_float example_upstream
                     (request_symbols example_unicode (Some (ustr ''aapl,goog,nvda,msft''))) s \<noteq> None)
        (request_symbols example_unicode (Some (ustr ''aapl,goog,nvda,msft'')))
       = [ustr ''AAPL'', ustr ''NVDA'', ustr ''MSFT'']
   \<and> handle_of example_upstream [ustr ''AAPL'', ustr ''GOOG'', ustr ''NVDA'', ustr ''MSFT'']
         (ustr ''NVDA'') = single example_upstream (ustr ''NVDA'')
   \<and> single example_upstream (ustr ''NVDA'') = Inr nvda_ticker
   \<and> handle_of example_upstream [ustr ''AAPL'', ustr ''GOOG'', ustr ''NVDA'', ustr ''MSFT'']
         (ustr ''MSFT'') = Inr msft_ticker"
proof -
  have s: "request_symbols example_unicode (Some (ustr ''aapl,goog,nvda,msft''))
     = [ustr ''AAPL'', ustr ''GOOG'', ustr ''NVDA'', ustr ''MSFT'']"
    by code_simp
  have c: "constructor_failure example_upstream
         (request_symbols example_unicode (Some (ustr ''aapl,goog,nvda,msft''))) = None"
    by code_simp
  have m: "map symbol (payload_of (do_GET example_str_float example_unicode example_upstream
         (Some (ustr ''aapl,goog,nvda,msft''))))
       = [ustr ''AAPL'', ustr ''NVDA'', ustr ''MSFT'']"
    by code_simp
  have p: "map price (payload_of (do_GET example_str_float example_unicode example_upstream
         (Some (ustr ''aapl,goog,nvda,msft''))))
       = [Some (Finite 110), Some (Finite 50), Some (Finite 101)]"
    by code_simp
  have h: "handle_of example_upstream [ustr ''AAPL'', ustr ''GOOG'', ustr ''NVDA'', ustr ''MSFT'']
         (ustr ''NVDA'') = single example_upstream (ustr ''NVDA'')"
    "single example_upstream (ustr ''NVDA'') = Inr nvda_ticker"
    "handle_of example_upstream [ustr ''AAPL'', ustr ''GOOG'', ustr ''NVDA'', ustr ''MSFT'']
         (ustr ''MSFT'') = Inr msft_ticker"
    by (simp_all add: handle_of_def example_upstream_def example_batch_def example_single_def
          ustr_def)
  have n: "request_symbols example_unicode (Some (ustr ''aapl,goog,nvda,msft'')) \<noteq> []"
    by (simp add: s)
  have "map symbol (payload_of (do_GET example_str_float example_unicode example_upstream
         (Some (ustr ''aapl,goog,nvda,msft''))))
       = filter (\<lambda>s. price_for example_str_float example_upstream
                     (request_symbols example_unicode (Some (ustr ''aapl,goog,nvda,msft''))) s \<noteq> None)
        (request_symbols example_unicode (Some (ustr ''aapl,goog,nvda,msft'')))"
    using payload_is_resolved_symbols_in_order[where sf = example_str_float
            and uc = example_unicode and up = example_upstream
            and param = "Some (ustr ''aapl,goog,nvda,msft'')"
            and t = dead_ticker and s = "ustr ''GOOG''" and syms = "[]"
            and tickers = Map.empty] n c
    by blast
  with m have f: "filter (\<lambda>s. price_for example_str_float example_upstream
                     (request_symbols example_unicode (Some (ustr ''aapl,goog,nvda,msft''))) s \<noteq> None)
        (request_symbols example_unicode (Some (ustr ''aapl,goog,nvda,msft'')))
       = [ustr ''AAPL'', ustr ''NVDA'', ustr ''MSFT'']"
    by simp
  show ?thesis
    by (intro conjI) (rule s c m p f h)+
qed

text \<open>
  C2 as first stated fails for a request that passes validation and whose constructor
  raises: with a \<^verbatim>\<open>yf.Tickers\<close> that raises there is no response for \<^verbatim>\<open>AAPL\<close>, and
  with a \<^verbatim>\<open>yf.Ticker\<close> that raises for \<^verbatim>\<open>GOOG\<close> there is none for
  \<^verbatim>\<open>AAPL,GOOG\<close>, although the price of \<^verbatim>\<open>AAPL\<close> resolved.
\<close>

theorem constructor_error_no_body_counterexample:
  "request_symbols example_unicode (Some (ustr ''aapl'')) = [ustr ''AAPL'']
   \<and> do_GET example_str_float example_unicode failing_batch_upstream (Some (ustr ''aapl''))
       = ([NewTickers (ustr ''AAPL'')], Inl UpstreamError)
   \<and> request_symbols example_unicode (Some (ustr ''aapl,goog'')) = [ustr ''AAPL'', ustr ''GOOG'']
   \<and> snd (do_GET example_str_float example_unicode failing_single_upstream (Some (ustr ''aapl,goog'')))
       = Inl UpstreamError
   \<and> price_for example_str_float failing_single_upstream [ustr ''AAPL'', ustr ''GOOG'']
         (ustr ''AAPL'') = Some (Finite 110)"
  by code_simp

section \<open>The historical fallback\<close>

lemma recent_snoc:
  "recent 0 (col @ [x]) = (if is_na x then recent 0 col else Some x)"
  by (simp add: recent_def Let_def)

lemma recent_0_iff:
  "(recent 0 col = Some v) =
     (\<exists>i < length col. col ! i = v \<and> \<not> is_na v \<and> (\<forall>j. i < j \<and> j < length col \<longrightarrow> is_na (col ! j)))"
proof (induction col rule: rev_induct)
  case Nil
  show ?case by (simp add: recent_def)
next
  case (snoc x col)
  show ?case
  proof (cases "is_na x")
    case True
    have "(\<exists>i < length (col @ [x]). (col @ [x]) ! i = v \<and> \<not> is_na v
             \<and> (\<forall>j. i < j \<and> j < length (col @ [x]) \<longrightarrow> is_na ((col @ [x]) ! j)))
        = (\<exists>i < length col. col ! i = v \<and> \<not> is_na v
             \<and> (\<forall>j. i < j \<and> j < length col \<longrightarrow> is_na (col ! j)))"
      (is "?L = ?R")
    proof
      assume ?L
      then obtain i where i: "i < length (col @ [x])" "(col @ [x]) ! i = v" "\<not> is_na v"
        "\<forall>j. i < j \<and> j < length (col @ [x]) \<longrightarrow> is_na ((col @ [x]) ! j)" by blast
      have "i \<noteq> length col" using i(2,3) True by auto
      with i(1) have il: "i < length col" by simp
      moreover have "col ! i = v" using i(2) il by (simp add: nth_append)
      moreover have "is_na (col ! j)" if "i < j" "j < length col" for j
        using i(4) that by (auto simp: nth_append dest: spec[where x = j])
      ultimately show ?R using i(3) by blast
    next
      assume ?R
      then obtain i where i: "i < length col" "col ! i = v" "\<not> is_na v"
        "\<forall>j. i < j \<and> j < length col \<longrightarrow> is_na (col ! j)" by blast
      have na: "is_na ((col @ [x]) ! j)" if "i < j" "j < length (col @ [x])" for j
        using i(4) that True by (cases "j = length col") (auto simp: nth_append)
      have "i < length (col @ [x])" using i(1) by simp
      moreover have "(col @ [x]) ! i = v" using i(1,2) by (simp add: nth_append)
      ultimately show ?L using i(3) na by blast
    qed
    with True snoc show ?thesis by (simp add: recent_snoc)
  next
    case False
    have "(\<exists>i < length (col @ [x]). (col @ [x]) ! i = v \<and> \<not> is_na v
             \<and> (\<forall>j. i < j \<and> j < length (col @ [x]) \<longrightarrow> is_na ((col @ [x]) ! j)))
        = (x = v)"
      (is "?L = _")
    proof
      assume ?L
      then obtain i where i: "i < length (col @ [x])" "(col @ [x]) ! i = v"
        "\<forall>j. i < j \<and> j < length (col @ [x]) \<longrightarrow> is_na ((col @ [x]) ! j)" by blast
      have "i = length col"
      proof (rule ccontr)
        assume "i \<noteq> length col"
        with i(1) have "i < length col" by simp
        with i(3) have "is_na ((col @ [x]) ! length col)"
          by (auto dest: spec[where x = "length col"])
        with False show False by simp
      qed
      with i(2) show "x = v" by simp
    next
      assume "x = v"
      with False show ?L by (auto intro!: exI[where x = "length col"])
    qed
    with False show ?thesis by (simp add: recent_snoc)
  qed
qed

lemma recent_filter:
  "recent k col =
     (let xs = filter (\<lambda>v. \<not> is_na v) col
      in if k < length xs then Some (xs ! (length xs - Suc k)) else None)"
  by (simp add: recent_dropna dropna_def rev_nth Let_def)

lemma historical_parse:
  "historical sf t =
     (case history t of
        Inl e \<Rightarrow> (None, None, None)
      | Inr ho \<Rightarrow> (case parse_close_and_prev sf ho of Inl e \<Rightarrow> (None, None, None) | Inr r \<Rightarrow> r))"
proof (cases "history t")
  case (Inl e)
  then show ?thesis by (simp add: historical_def)
next
  case (Inr ho)
  then show ?thesis
    by (cases ho) (simp_all add: historical_def parse_None parse_eq Let_def)
qed

text \<open>
  C3: when the live snapshot gives no price the history is consulted (and only then).
  The historical close is the coercion of the most recent non-missing value of the
  \<^verbatim>\<open>Close\<close> column, the historical previous close that of the second-most-recent one,
  the historical volume that of the most recent non-missing value of \<^verbatim>\<open>Volume\<close>; the
  price becomes the historical close, and the previous close and the volume take the
  historical value only when the live one is absent.
\<close>

theorem history_fallback_fills_absent_fields:
  "(live_price sf t = None \<longrightarrow>
      fst (handle_symbol sf t s) = [FastInfo s, History s]
      \<and> snd (handle_symbol sf t s) =
          Inr (case fst (historical sf t) of
                 None \<Rightarrow> None
               | Some c \<Rightarrow>
                   Some \<lparr>symbol = s, price = Some c,
                         previousClose =
                           (if live_previous_close sf t = None then fst (snd (historical sf t))
                            else live_previous_close sf t),
                         changePct =
                           change_pct c
                             (if live_previous_close sf t = None then fst (snd (historical sf t))
                              else live_previous_close sf t),
                         marketCap = live_market_cap sf t,
                         volume =
                           (if live_volume sf t = None then snd (snd (historical sf t))
                            else live_volume sf t),
                         averageVolume = None, high24h = None, low24h = None,
                         currency = py_or (dict_get (snapshot t) ''currency'') (PStr ''USD''),
                         exchange = dict_get (snapshot t) ''exchange'', name = s\<rparr>))
   \<and> (live_price sf t \<noteq> None \<longrightarrow> fst (handle_symbol sf t s) = [FastInfo s])
   \<and> parse_close_and_prev sf (Some h) =
       Inr (if index_len h = 0 then (None, None, None)
            else (coerced sf (recent 0 (case columns h ''Close'' of None \<Rightarrow> [] | Some col \<Rightarrow> col)),
                  coerced sf (recent 1 (case columns h ''Close'' of None \<Rightarrow> [] | Some col \<Rightarrow> col)),
                  coerced sf (recent 0 (case columns h ''Volume'' of None \<Rightarrow> [] | Some col \<Rightarrow> col))))
   \<and> parse_close_and_prev sf None = Inr (None, None, None)
   \<and> historical sf t =
       (case history t of
          Inl e \<Rightarrow> (None, None, None)
        | Inr ho \<Rightarrow>
            (case parse_close_and_prev sf ho of Inl e \<Rightarrow> (None, None, None) | Inr r \<Rightarrow> r))
   \<and> recent k col =
       (let xs = filter (\<lambda>v. \<not> is_na v) col
        in if k < length xs then Some (xs ! (length xs - Suc k)) else None)
   \<and> (recent 0 col = Some v) =
       (\<exists>i < length col. col ! i = v \<and> \<not> is_na v
          \<and> (\<forall>j. i < j \<and> j < length col \<longrightarrow> is_na (col ! j)))"
proof -
  have f1: "live_price sf t = None \<longrightarrow>
      fst (handle_symbol sf t s) = [FastInfo s, History s]
      \<and> snd (handle_symbol sf t s) =
          Inr (case fst (historical sf t) of
                 None \<Rightarrow> None
               | Some c \<Rightarrow>
                   Some \<lparr>symbol = s, price = Some c,
                         previousClose =
                           (if live_previous_close sf t = None then fst (snd (historical sf t))
                            else live_previous_close sf t),
                         changePct =
                           change_pct c
                             (if live_previous_close sf t = None then fst (snd (historical sf t))
                              else live_previous_close sf t),
                         marketCap = live_market_cap sf t,
                         volume =
                           (if live_volume sf t = None then snd (snd (historical sf t))
                            else live_volume sf t),
                         averageVolume = None, high24h = None, low24h = None,
                         currency = py_or (dict_get (snapshot t) ''currency'') (PStr ''USD''),
                         exchange = dict_get (snapshot t) ''exchange'', name = s\<rparr>)"
    by (simp add: handle_symbol_spec spec_quote_def resolved_price_def historical_close_def
          final_previous_close_def final_volume_def py_or_def split: option.splits)
  have f2: "live_price sf t \<noteq> None \<longrightarrow> fst (handle_symbol sf t s) = [FastInfo s]"
    by (simp add: handle_symbol_spec)
  show ?thesis
    by (intro conjI) (rule f1 f2 parse_eq parse_None historical_parse recent_filter recent_0_iff)+
qed

theorem history_fallback_fills_absent_fields_witness:
  "live_price example_str_float msft_ticker = None
   \<and> handle_symbol example_str_float msft_ticker (ustr ''MSFT'') =
       ([FastInfo (ustr ''MSFT''), History (ustr ''MSFT'')],
        Inr (Some \<lparr>symbol = ustr ''MSFT'', price = Some (Finite 101), previousClose = Some (Finite 98),
                   changePct = change_pct (Finite 101) (Some (Finite 98)), marketCap = None,
                   volume = Some (Finite 1200), averageVolume = None, high24h = None,
                   low24h = None, currency = PStr ''USD'', exchange = PNone, name = ustr ''MSFT''\<rparr>))
   \<and> recent 0 [PFloat (Finite 98), PFloat (Finite 101), PFloat NaN] = Some (PFloat (Finite 101))
   \<and> recent 1 [PFloat (Finite 98), PFloat (Finite 101), PFloat NaN] = Some (PFloat (Finite 98))"
proof -
  have lp: "live_price example_str_float msft_ticker = None"
    and lc: "live_previous_close example_str_float msft_ticker = None"
    and lv: "live_volume example_str_float msft_ticker = None"
    and lm: "live_market_cap example_str_float msft_ticker = None"
    and h: "historical example_str_float msft_ticker
              = (Some (Finite 101), Some (Finite 98), Some (Finite 1200))"
    and c: "py_or (dict_get (snapshot msft_ticker) ''currency'') (PStr ''USD'') = PStr ''USD''"
    and e: "dict_get (snapshot msft_ticker) ''exchange'' = PNone"
    by code_simp+
  have r: "recent 0 [PFloat (Finite 98), PFloat (Finite 101), PFloat NaN] = Some (PFloat (Finite 101))"
    "recent 1 [PFloat (Finite 98), PFloat (Finite 101), PFloat NaN] = Some (PFloat (Finite 98))"
    by code_simp+
  from history_fallback_fills_absent_fields[where sf = example_str_float and t = msft_ticker
         and s = "ustr ''MSFT''" and h = "\<lparr>index_len = 0, columns = Map.empty\<rparr>" and k = 0
         and col = "[]" and v = PNone]
  have "fst (handle_symbol example_str_float msft_ticker (ustr ''MSFT'')) = [FastInfo (ustr ''MSFT''), History (ustr ''MSFT'')]
      \<and> snd (handle_symbol example_str_float msft_ticker (ustr ''MSFT'')) =
         Inr (Some \<lparr>symbol = ustr ''MSFT'', price = Some (Finite 101), previousClose = Some (Finite 98),
                   changePct = change_pct (Finite 101) (Some (Finite 98)), marketCap = None,
                   volume = Some (Finite 1200), averageVolume = None, high24h = None,
                   low24h = None, currency = PStr ''USD'', exchange = PNone, name = ustr ''MSFT''\<rparr>)"
    by (simp add: lp lc lv lm h c e)
  then show ?thesis
    using lp r by (simp add: prod_eq_iff)
qed

section \<open>The symbol list and the validation\<close>

lemma removeAll_filter_conv:
  "removeAll x (filter P xs) = filter (\<lambda>y. P y \<and> y \<noteq> x) xs"
  by (induction xs) auto

lemma unique_symbols_loop_eq:
  "unique_symbols_loop uc tokens seen out =
     out @ first_occurrences
             (filter (\<lambda>s. s \<noteq> [] \<and> s \<notin> seen)
                (map (\<lambda>token. py_upper uc (py_strip uc token)) tokens))"
proof (induction tokens arbitrary: seen out)
  case Nil
  show ?case by simp
next
  case (Cons token tokens)
  let ?s = "py_upper uc (py_strip uc token)"
  show ?case
  proof (cases "?s = [] \<or> ?s \<in> seen")
    case True
    then show ?thesis by (auto simp: Cons.IH Let_def)
  next
    case False
    have "filter (\<lambda>s. s \<noteq> [] \<and> s \<notin> insert ?s seen) xs
            = removeAll ?s (filter (\<lambda>s. s \<noteq> [] \<and> s \<notin> seen) xs)" for xs
      by (simp add: removeAll_filter_conv conj_commute conj_left_commute cong: conj_cong)
    with False show ?thesis by (simp add: Cons.IH Let_def)
  qed
qed

lemma unique_symbols_eq:
  "unique_symbols uc raw =
     first_occurrences
       (filter (\<lambda>s. s \<noteq> [])
          (map (\<lambda>token. py_upper uc (py_strip uc token)) (py_split (of_char CHR '','') raw)))"
  by (simp add: unique_symbols_def unique_symbols_loop_eq)

lemma first_occurrences_set: "set (first_occurrences xs) = set xs"
  by (induction xs rule: first_occurrences.induct) auto

lemma first_occurrences_distinct: "distinct (first_occurrences xs)"
  by (induction xs rule: first_occurrences.induct) (auto simp: first_occurrences_set)

lemma first_occurrences_remdups: "first_occurrences xs = rev (remdups (rev xs))"
proof (induction xs rule: first_occurrences.induct)
  case 1
  show ?case by simp
next
  case (2 x xs)
  have "remdups (ys @ [x]) = removeAll x (remdups ys) @ [x]" for ys :: "'a list"
    by (induction ys) auto
  then have "rev (remdups (rev (x # xs))) = x # rev (removeAll x (remdups (rev xs)))"
    by simp
  also have "removeAll x (remdups (rev xs)) = remdups (rev (removeAll x xs))"
    by (induction xs rule: rev_induct) auto
  finally show ?case using 2 by simp
qed

lemma first_occurrences_id: "distinct xs \<Longrightarrow> first_occurrences xs = xs"
  by (induction xs) simp_all

lemma py_split_tokens:
  "t \<in> set (py_split sep s) \<Longrightarrow> c \<in> set t \<Longrightarrow> c \<in> set s \<and> c \<noteq> sep"
proof (induction s arbitrary: t)
  case Nil
  then show ?case by simp
next
  case (Cons x xs)
  show ?case
  proof (cases "x = sep")
    case True
    with Cons show ?thesis by auto
  next
    case False
    show ?thesis
    proof (cases "py_split sep xs")
      case Nil
      with False Cons.prems show ?thesis by auto
    next
      case (Cons u us)
      with False Cons.prems Cons.IH[of u] Cons.IH[of t] show ?thesis
        using \<open>py_split sep xs = u # us\<close> by auto
    qed
  qed
qed

lemma py_split_nonempty: "py_split sep s \<noteq> []"
  by (induction s) (auto split: list.splits)

lemma py_join_Cons: "py_join sep ((c # t) # ts) = c # py_join sep (t # ts)"
  by (cases ts) simp_all

lemma py_join_split: "py_join [sep] (py_split sep s) = s"
proof (induction s)
  case Nil
  show ?case by simp
next
  case (Cons c cs)
  obtain t ts where ts: "py_split sep cs = t # ts"
    using py_split_nonempty[of sep cs] by (cases "py_split sep cs") auto
  show ?case
    using Cons.IH by (simp add: ts py_join_Cons)
qed

lemma py_split_nosep: "sep \<notin> set x \<Longrightarrow> py_split sep x = [x]"
  by (induction x) auto

lemma py_split_append:
  "sep \<notin> set x \<Longrightarrow> py_split sep (x @ sep # rest) = x # py_split sep rest"
  by (induction x) auto

lemma py_split_join:
  assumes "xs \<noteq> []" and "\<forall>x \<in> set xs. sep \<notin> set x"
  shows "py_split sep (py_join [sep] xs) = xs"
  using assms
proof (induction xs)
  case Nil
  then show ?case by simp
next
  case (Cons x xs)
  show ?case
  proof (cases xs)
    case Nil
    with Cons.prems show ?thesis by (simp add: py_split_nosep)
  next
    case (Cons y ys)
    with Cons.prems Cons.IH show ?thesis by (simp add: py_split_append)
  qed
qed

lemma set_py_join: "set (py_join sep xs) \<subseteq> set sep \<union> \<Union> (set ` set xs)"
  by (induction sep xs rule: py_join.induct) auto

lemma py_strip_subset: "set (py_strip uc s) \<subseteq> set s"
  by (auto simp: py_strip_def dest!: set_dropWhileD)

lemma py_strip_blank:
  assumes "\<forall>c \<in> set t. isspace uc c"
  shows "py_strip uc t = []"
proof -
  have d: "dropWhile (isspace uc) t = []"
    using assms by simp
  show ?thesis
    by (simp only: py_strip_def d rev.simps dropWhile.simps)
qed

lemma dropWhile_id: "\<forall>c \<in> set t. \<not> P c \<Longrightarrow> dropWhile P t = t"
  by (cases t) simp_all

lemma py_strip_id:
  assumes "\<forall>c \<in> set t. \<not> isspace uc c"
  shows "py_strip uc t = t"
proof -
  have "dropWhile (isspace uc) t = t"
    using assms by (rule dropWhile_id)
  moreover have "dropWhile (isspace uc) (rev t) = rev t"
    using assms by (intro dropWhile_id) simp
  ultimately show ?thesis by (simp add: py_strip_def)
qed

lemma py_upper_id: "\<forall>c \<in> set t. to_upper uc c = [c] \<Longrightarrow> py_upper uc t = t"
  by (induction t) (simp_all add: py_upper_def)

lemma py_strip_decomp:
  "\<exists>a b. s = a @ py_strip uc s @ b \<and> (\<forall>c \<in> set a. isspace uc c) \<and> (\<forall>c \<in> set b. isspace uc c)"
proof -
  let ?P = "isspace uc"
  let ?s' = "dropWhile ?P s"
  have "rev ?s' = takeWhile ?P (rev ?s') @ dropWhile ?P (rev ?s')"
    by simp
  then have "?s' = rev (dropWhile ?P (rev ?s')) @ rev (takeWhile ?P (rev ?s'))"
    by (metis rev_append rev_rev_ident)
  then have "s = takeWhile ?P s @ py_strip uc s @ rev (takeWhile ?P (rev ?s'))"
    by (metis py_strip_def takeWhile_dropWhile_id)
  moreover have "\<forall>c \<in> set (takeWhile ?P s). ?P c"
    by (auto dest: set_takeWhileD)
  moreover have "\<forall>c \<in> set (rev (takeWhile ?P (rev ?s'))). ?P c"
    by (auto dest: set_takeWhileD)
  ultimately show ?thesis by blast
qed

lemma py_strip_ends:
  assumes "py_strip uc s \<noteq> []"
  shows "\<not> isspace uc (hd (py_strip uc s)) \<and> \<not> isspace uc (last (py_strip uc s))"
proof -
  let ?P = "isspace uc"
  let ?s' = "dropWhile ?P s"
  let ?r = "dropWhile ?P (rev ?s')"
  have r: "?r \<noteq> []" using assms by (simp add: py_strip_def)
  have s': "?s' \<noteq> []"
  proof
    assume e: "?s' = []"
    have "?r = []" unfolding e by simp
    with r show False ..
  qed
  have "\<not> ?P (hd ?r)" using r by (rule hd_dropWhile)
  then have l: "\<not> ?P (last (py_strip uc s))"
    using r by (simp add: py_strip_def last_rev)
  have "rev ?s' = takeWhile ?P (rev ?s') @ ?r" by simp
  then have "last (rev ?s') = last ?r" using r by (metis last_appendR)
  then have "hd ?s' = last ?r" using s' by (simp add: last_rev)
  moreover have "\<not> ?P (hd ?s')" using s' by (rule hd_dropWhile)
  ultimately have "\<not> ?P (hd (py_strip uc s))"
    using r by (simp add: py_strip_def hd_rev)
  with l show ?thesis by simp
qed

lemma unique_symbols_join:
  assumes d: "distinct syms"
    and n: "\<forall>x \<in> set syms. x \<noteq> [] \<and> (\<forall>c \<in> set x. c \<noteq> of_char CHR '','' \<and> \<not> isspace uc c
                                            \<and> to_upper uc c = [c])"
  shows "unique_symbols uc (py_join (ustr '','') syms) = syms"
proof (cases "syms = []")
  case True
  then show ?thesis
    by (simp add: unique_symbols_eq py_strip_def py_upper_def)
next
  case False
  have sep: "ustr '','' = [of_char CHR '','']"
    by (simp add: ustr_def)
  have "\<forall>x \<in> set syms. of_char CHR '','' \<notin> set x"
    using n by blast
  with False have sp: "py_split (of_char CHR '','') (py_join (ustr '','') syms) = syms"
    unfolding sep by (rule py_split_join)
  have "py_upper uc (py_strip uc x) = x" if "x \<in> set syms" for x
  proof -
    have "py_strip uc x = x" using n that by (intro py_strip_id) blast
    moreover have "py_upper uc x = x" using n that by (intro py_upper_id) blast
    ultimately show ?thesis by simp
  qed
  then have m: "map (\<lambda>token. py_upper uc (py_strip uc token)) syms = syms"
    by (simp add: map_idI)
  have f: "filter (\<lambda>s. s \<noteq> []) syms = syms"
    using n by (simp add: filter_id_conv)
  show ?thesis
    unfolding unique_symbols_eq sp m f
    using d by (rule first_occurrences_id)
qed

lemma request_symbols_join:
  assumes d: "distinct syms"
    and n: "\<forall>x \<in> set syms. x \<noteq> [] \<and> (\<forall>c \<in> set x. c \<noteq> of_char CHR '','' \<and> \<not> isspace uc c
                                            \<and> to_upper uc c = [c])"
    and c: "\<not> isspace uc (of_char CHR '','')"
  shows "request_symbols uc (Some (py_join (ustr '','') syms)) = take 220 syms"
proof -
  let ?raw = "py_join (ustr '','') syms"
  have "\<forall>c \<in> set ?raw. \<not> isspace uc c"
    using set_py_join[of "ustr '',''" syms] n c by (auto simp: ustr_def)
  then have "py_strip uc ?raw = ?raw" by (rule py_strip_id)
  moreover have "(if ?raw = [] then [] else ?raw) = ?raw" by simp
  ultimately show ?thesis
    by (simp add: request_symbols_def unique_symbols_join[OF d n] MAX_SYMBOLS_def)
qed

lemma blank_symbols:
  assumes "\<forall>c \<in> set raw. isspace uc c \<or> c = of_char CHR '',''"
  shows "unique_symbols uc raw = []"
proof -
  have "py_upper uc (py_strip uc t) = []" if "t \<in> set (py_split (of_char CHR '','') raw)" for t
  proof -
    have "\<forall>c \<in> set t. isspace uc c"
      using py_split_tokens[OF that] assms by blast
    then show ?thesis by (simp add: py_strip_blank py_upper_def)
  qed
  then have "filter (\<lambda>s. s \<noteq> [])
               (map (\<lambda>token. py_upper uc (py_strip uc token)) (py_split (of_char CHR '','') raw)) = []"
    by (simp add: filter_empty_conv)
  then show ?thesis by (simp add: unique_symbols_eq)
qed

lemma request_symbols_blank:
  assumes "\<forall>c \<in> set v. isspace uc c \<or> c = of_char CHR '',''"
  shows "request_symbols uc (Some v) = []"
proof -
  have "\<forall>c \<in> set (py_strip uc v). isspace uc c \<or> c = of_char CHR '',''"
    using assms py_strip_subset[of uc v] by blast
  then have "unique_symbols uc (py_strip uc v) = []" by (rule blank_symbols)
  moreover have "(if v = [] then [] else v) = v" by simp
  ultimately show ?thesis by (simp add: request_symbols_def)
qed

lemma request_symbols_None: "request_symbols uc None = []"
  by (simp add: request_symbols_def blank_symbols py_strip_def)

lemma many_symbols_distinct: "distinct many_symbols"
  by (auto simp: many_symbols_def distinct_map inj_on_def dest: arg_cong[where f = length])

lemma many_symbols_normal:
  "\<forall>x \<in> set many_symbols. x \<noteq> [] \<and> (\<forall>c \<in> set x. c \<noteq> of_char CHR '','' \<and> \<not> isspace example_unicode c
                                            \<and> to_upper example_unicode c = [c])"
  by (auto simp: many_symbols_def example_unicode_def)

lemma many_symbols_take:
  "take 220 many_symbols = map (\<lambda>n. replicate (Suc n) (of_char CHR ''A'')) [0 ..< 220]"
  by (simp add: many_symbols_def take_map)

text \<open>
  C5: the symbol list of \<open>unique_symbols\<close>, cut at \<open>MAX_SYMBOLS\<close>, is the list of the
  specification: the tokens between commas, trimmed and uppercased, without the empty
  ones, each symbol at its first occurrence only and in the order of these, and the
  first 220 of them when there are more. Splitting is inverse to joining with commas,
  trimming removes exactly the white space at the two ends, and uppercasing maps code
  point by code point. A list of distinct symbols that are already normal comes back
  from its comma-separated string, cut after 220;
  \<^verbatim>\<open>"aapl, MSFT,aapl , msft,GOOG"\<close> gives \<^verbatim>\<open>AAPL\<close>, \<^verbatim>\<open>MSFT\<close>, \<^verbatim>\<open>GOOG\<close>.
\<close>

theorem normalized_symbols_refine_spec:
  "take MAX_SYMBOLS (unique_symbols uc raw) = spec_symbols uc raw
   \<and> request_symbols uc param
       = spec_symbols uc (py_strip uc (case param of None \<Rightarrow> [] | Some v \<Rightarrow> v))
   \<and> length (take MAX_SYMBOLS (unique_symbols uc raw)) \<le> 220
   \<and> length (take MAX_SYMBOLS (unique_symbols uc raw)) = min 220 (length (unique_symbols uc raw))
   \<and> (220 \<le> length (unique_symbols uc raw) \<longrightarrow>
         length (take MAX_SYMBOLS (unique_symbols uc raw)) = 220)
   \<and> take MAX_SYMBOLS (unique_symbols uc raw) = take 220 (unique_symbols uc raw)
   \<and> distinct (take MAX_SYMBOLS (unique_symbols uc raw))
   \<and> [] \<notin> set (take MAX_SYMBOLS (unique_symbols uc raw))
   \<and> unique_symbols uc raw =
       first_occurrences
         (filter (\<lambda>s. s \<noteq> [])
            (map (\<lambda>token. py_upper uc (py_strip uc token)) (py_split (of_char CHR '','') raw)))
   \<and> first_occurrences xs = rev (remdups (rev xs))
   \<and> distinct (first_occurrences xs)
   \<and> set (first_occurrences xs) = set xs
   \<and> py_join [sep] (py_split sep s) = s
   \<and> (\<forall>t \<in> set (py_split sep s). sep \<notin> set t)
   \<and> (\<exists>a b. s = a @ py_strip uc s @ b \<and> (\<forall>c \<in> set a. isspace uc c) \<and> (\<forall>c \<in> set b. isspace uc c))
   \<and> (py_strip uc s \<noteq> [] \<longrightarrow>
         \<not> isspace uc (hd (py_strip uc s)) \<and> \<not> isspace uc (last (py_strip uc s)))
   \<and> py_upper uc s = concat (map (to_upper uc) s)
   \<and> (distinct syms
        \<and> (\<forall>x \<in> set syms. x \<noteq> [] \<and> (\<forall>c \<in> set x. c \<noteq> of_char CHR '','' \<and> \<not> isspace uc c
                                            \<and> to_upper uc c = [c])) \<longrightarrow>
         take MAX_SYMBOLS (unique_symbols uc (py_join (ustr '','') syms)) = take 220 syms
         \<and> (\<not> isspace uc (of_char CHR '','') \<longrightarrow>
               request_symbols uc (Some (py_join (ustr '','') syms)) = take 220 syms))
   \<and> take MAX_SYMBOLS (unique_symbols example_unicode (ustr ''aapl, MSFT,aapl , msft,GOOG''))
       = [ustr ''AAPL'', ustr ''MSFT'', ustr ''GOOG'']"
proof -
  have f1: "take MAX_SYMBOLS (unique_symbols uc raw) = spec_symbols uc raw" for raw
    unfolding spec_symbols_def unique_symbols_eq MAX_SYMBOLS_def ..
  have "(case param of None \<Rightarrow> [] | Some v \<Rightarrow> if v = [] then [] else v)
          = (case param of None \<Rightarrow> [] | Some v \<Rightarrow> v)"
    by (simp split: option.splits)
  then have f2: "request_symbols uc param
                   = spec_symbols uc (py_strip uc (case param of None \<Rightarrow> [] | Some v \<Rightarrow> v))"
    by (simp add: request_symbols_def f1)
  have f3: "length (take MAX_SYMBOLS (unique_symbols uc raw)) \<le> 220"
    by (simp add: MAX_SYMBOLS_def)
  have f4: "length (take MAX_SYMBOLS (unique_symbols uc raw))
              = min 220 (length (unique_symbols uc raw))"
    by (simp add: MAX_SYMBOLS_def min.commute)
  have f5: "220 \<le> length (unique_symbols uc raw) \<longrightarrow>
         length (take MAX_SYMBOLS (unique_symbols uc raw)) = 220"
    by (simp add: MAX_SYMBOLS_def)
  have f6: "take MAX_SYMBOLS (unique_symbols uc raw) = take 220 (unique_symbols uc raw)"
    by (simp add: MAX_SYMBOLS_def)
  have f7: "distinct (take MAX_SYMBOLS (unique_symbols uc raw))"
    by (simp add: unique_symbols_eq first_occurrences_distinct)
  have "[] \<notin> set (unique_symbols uc raw)"
    by (simp add: unique_symbols_eq first_occurrences_set)
  then have f8: "[] \<notin> set (take MAX_SYMBOLS (unique_symbols uc raw))"
    using set_take_subset[of MAX_SYMBOLS "unique_symbols uc raw"] by blast
  have f9: "\<forall>t \<in> set (py_split sep s). sep \<notin> set t"
    using py_split_tokens[of _ sep s sep] by blast
  have f10: "py_strip uc s \<noteq> [] \<longrightarrow>
         \<not> isspace uc (hd (py_strip uc s)) \<and> \<not> isspace uc (last (py_strip uc s))"
    using py_strip_ends by blast
  have f11: "distinct syms
        \<and> (\<forall>x \<in> set syms. x \<noteq> [] \<and> (\<forall>c \<in> set x. c \<noteq> of_char CHR '','' \<and> \<not> isspace uc c
                                            \<and> to_upper uc c = [c])) \<longrightarrow>
         take MAX_SYMBOLS (unique_symbols uc (py_join (ustr '','') syms)) = take 220 syms
         \<and> (\<not> isspace uc (of_char CHR '','') \<longrightarrow>
               request_symbols uc (Some (py_join (ustr '','') syms)) = take 220 syms)"
  proof
    assume a: "distinct syms
        \<and> (\<forall>x \<in> set syms. x \<noteq> [] \<and> (\<forall>c \<in> set x. c \<noteq> of_char CHR '','' \<and> \<not> isspace uc c
                                            \<and> to_upper uc c = [c]))"
    then have d: "distinct syms"
      and n: "\<forall>x \<in> set syms. x \<noteq> [] \<and> (\<forall>c \<in> set x. c \<noteq> of_char CHR '','' \<and> \<not> isspace uc c
                                            \<and> to_upper uc c = [c])"
      by blast+
    have "take MAX_SYMBOLS (unique_symbols uc (py_join (ustr '','') syms)) = take 220 syms"
      unfolding unique_symbols_join[OF d n] MAX_SYMBOLS_def ..
    moreover have "\<not> isspace uc (of_char CHR '','') \<longrightarrow>
               request_symbols uc (Some (py_join (ustr '','') syms)) = take 220 syms"
      using request_symbols_join[OF d n] by blast
    ultimately show
      "take MAX_SYMBOLS (unique_symbols uc (py_join (ustr '','') syms)) = take 220 syms
         \<and> (\<not> isspace uc (of_char CHR '','') \<longrightarrow>
               request_symbols uc (Some (py_join (ustr '','') syms)) = take 220 syms)"
      by (rule conjI)
  qed
  have f12: "take MAX_SYMBOLS (unique_symbols example_unicode (ustr ''aapl, MSFT,aapl , msft,GOOG''))
              = [ustr ''AAPL'', ustr ''MSFT'', ustr ''GOOG'']"
    by code_simp
  show ?thesis
    by (intro conjI)
       (rule f1 f2 f3 f4 f5 f6 f7 f8 f9 f10 f11 f12 unique_symbols_eq first_occurrences_remdups
          first_occurrences_distinct first_occurrences_set py_join_split py_strip_decomp
          py_upper_def)+
qed

theorem normalized_symbols_refine_spec_witness:
  "spec_symbols example_unicode (ustr ''aapl, MSFT,aapl , msft,GOOG'')
     = [ustr ''AAPL'', ustr ''MSFT'', ustr ''GOOG'']
   \<and> request_symbols example_unicode (Some (ustr ''  aapl, MSFT,aapl , msft,GOOG ''))
       = [ustr ''AAPL'', ustr ''MSFT'', ustr ''GOOG'']
   \<and> request_symbols example_unicode
         (Some ([160] @ ustr ''stra'' @ [223] @ ustr ''e ,aapl'' @ [133]))
       = [ustr ''STRASSE'', ustr ''AAPL'']
   \<and> length many_symbols = 260
   \<and> distinct many_symbols
   \<and> request_symbols example_unicode (Some many_symbols_raw)
       = map (\<lambda>n. replicate (Suc n) (of_char CHR ''A'')) [0 ..< 220]
   \<and> length (request_symbols example_unicode (Some many_symbols_raw)) = 220"
proof -
  have r: "request_symbols example_unicode (Some (ustr ''  aapl, MSFT,aapl , msft,GOOG ''))
             = [ustr ''AAPL'', ustr ''MSFT'', ustr ''GOOG'']"
    by code_simp
  have u: "request_symbols example_unicode
         (Some ([160] @ ustr ''stra'' @ [223] @ ustr ''e ,aapl'' @ [133]))
       = [ustr ''STRASSE'', ustr ''AAPL'']"
    by code_simp
  have c: "\<not> isspace example_unicode (of_char CHR '','')"
    by (simp add: example_unicode_def)
  note t = normalized_symbols_refine_spec[where uc = example_unicode
             and raw = "ustr ''aapl, MSFT,aapl , msft,GOOG''"
             and param = "Some (ustr ''  aapl, MSFT,aapl , msft,GOOG '')" and xs = "[]"
             and sep = 0 and s = "[]" and syms = many_symbols]
  have "take MAX_SYMBOLS (unique_symbols example_unicode (ustr ''aapl, MSFT,aapl , msft,GOOG''))
          = spec_symbols example_unicode (ustr ''aapl, MSFT,aapl , msft,GOOG'')"
    and "take MAX_SYMBOLS (unique_symbols example_unicode (ustr ''aapl, MSFT,aapl , msft,GOOG''))
          = [ustr ''AAPL'', ustr ''MSFT'', ustr ''GOOG'']"
    using t by blast+
  then have e: "spec_symbols example_unicode (ustr ''aapl, MSFT,aapl , msft,GOOG'')
                  = [ustr ''AAPL'', ustr ''MSFT'', ustr ''GOOG'']"
    by simp
  have "request_symbols example_unicode (Some (py_join (ustr '','') many_symbols))
          = take 220 many_symbols"
    using t many_symbols_distinct many_symbols_normal c by blast
  then have m: "request_symbols example_unicode (Some many_symbols_raw)
       = map (\<lambda>n. replicate (Suc n) (of_char CHR ''A'')) [0 ..< 220]"
    by (simp only: many_symbols_raw_def many_symbols_take)
  have l: "length many_symbols = 260"
    by (simp add: many_symbols_def)
  have l2: "length (request_symbols example_unicode (Some many_symbols_raw)) = 220"
    unfolding m by simp
  show ?thesis
    by (intro conjI) (rule e r u l many_symbols_distinct m l2)+
qed

text \<open>
  C6: a request whose symbol list is empty, which includes a missing \<^verbatim>\<open>symbols\<close>
  parameter, an empty one and one of white space and commas only, is answered with status
  400, the JSON content type and the body \<^verbatim>\<open>{"error": "missing_symbols"}\<close>, without a
  call to the client. Every response has status 400 or 200, and 400 only in this case;
  a request with a symbol calls the client, and is answered whenever the handle
  constructors return.
\<close>

theorem missing_symbols_is_400:
  "(request_symbols uc param = [] \<longrightarrow>
      do_GET sf uc up param =
        ([], Inr \<lparr>status = 400,
                  headers = [(''Content-Type'', ''application/json; charset=utf-8'')],
                  body = ErrorObject [(''error'', ''missing_symbols'')]\<rparr>))
   \<and> (constructor_failure up (request_symbols uc param) = None \<longrightarrow>
        (\<exists>calls resp. do_GET sf uc up param = (calls, Inr resp)
           \<and> (status resp = 400 \<or> status resp = 200)
           \<and> (status resp = 400) = (request_symbols uc param = [])
           \<and> (calls = []) = (request_symbols uc param = [])))
   \<and> (\<forall>resp. snd (do_GET sf uc up param) = Inr resp \<longrightarrow>
         (status resp = 400 \<or> status resp = 200)
         \<and> (status resp = 400) = (request_symbols uc param = []))
   \<and> (fst (do_GET sf uc up param) = []) = (request_symbols uc param = [])
   \<and> request_symbols uc None = []
   \<and> request_symbols uc (Some []) = []
   \<and> ((\<forall>c \<in> set v. isspace uc c \<or> c = of_char CHR '','') \<longrightarrow> request_symbols uc (Some v) = [])"
proof -
  have f1: "request_symbols uc param = [] \<longrightarrow>
      do_GET sf uc up param =
        ([], Inr \<lparr>status = 400,
                  headers = [(''Content-Type'', ''application/json; charset=utf-8'')],
                  body = ErrorObject [(''error'', ''missing_symbols'')]\<rparr>)"
    by (simp add: do_GET_def)
  have f2: "constructor_failure up (request_symbols uc param) = None \<longrightarrow>
        (\<exists>calls resp. do_GET sf uc up param = (calls, Inr resp)
           \<and> (status resp = 400 \<or> status resp = 200)
           \<and> (status resp = 400) = (request_symbols uc param = [])
           \<and> (calls = []) = (request_symbols uc param = []))"
  proof
    assume "constructor_failure up (request_symbols uc param) = None"
    from do_GET_returns[OF this, of sf] obtain calls resp
      where r: "do_GET sf uc up param = (calls, Inr resp)"
        and st: "status resp = (if request_symbols uc param = [] then 400 else 200)"
      by blast
    have "(calls = []) = (request_symbols uc param = [])"
      using do_GET_calls[of sf uc up param] r by simp
    with r st show "\<exists>calls resp. do_GET sf uc up param = (calls, Inr resp)
           \<and> (status resp = 400 \<or> status resp = 200)
           \<and> (status resp = 400) = (request_symbols uc param = [])
           \<and> (calls = []) = (request_symbols uc param = [])"
      by simp
  qed
  have f3: "\<forall>resp. snd (do_GET sf uc up param) = Inr resp \<longrightarrow>
         (status resp = 400 \<or> status resp = 200)
         \<and> (status resp = 400) = (request_symbols uc param = [])"
    by (auto simp: do_GET_result split: if_splits option.splits)
  have f4: "request_symbols uc (Some []) = []"
    by (rule request_symbols_blank) simp
  have f5: "(\<forall>c \<in> set v. isspace uc c \<or> c = of_char CHR '','') \<longrightarrow> request_symbols uc (Some v) = []"
    using request_symbols_blank by blast
  show ?thesis
    by (intro conjI) (rule f1 f2 f3 f4 f5 do_GET_calls request_symbols_None)+
qed



theorem missing_symbols_is_400_witness:
  "request_symbols example_unicode (Some (ustr '' ,  , '')) = []
   \<and> request_symbols example_unicode (Some [160, 44, 133, 32]) = []
   \<and> do_GET example_str_float example_unicode example_upstream (Some (ustr '' ,  , '')) =
       ([], Inr \<lparr>status = 400,
                 headers = [(''Content-Type'', ''application/json; charset=utf-8'')],
                 body = ErrorObject [(''error'', ''missing_symbols'')]\<rparr>)
   \<and> do_GET example_str_float example_unicode failing_batch_upstream None =
       ([], Inr \<lparr>status = 400,
                 headers = [(''Content-Type'', ''application/json; charset=utf-8'')],
                 body = ErrorObject [(''error'', ''missing_symbols'')]\<rparr>)
   \<and> fst (do_GET example_str_float example_unicode example_upstream (Some (ustr ''aapl''))) \<noteq> []"
proof -
  have b1: "\<forall>c \<in> set (ustr '' ,  , ''). isspace example_unicode c \<or> c = of_char CHR '',''"
    by code_simp
  have b2: "\<forall>c \<in> set [160, 44, 133, 32]. isspace example_unicode c \<or> c = of_char CHR '',''"
    by code_simp
  have n: "request_symbols example_unicode (Some (ustr ''aapl'')) \<noteq> []"
    by code_simp
  note blank = missing_symbols_is_400[THEN conjunct2, THEN conjunct2, THEN conjunct2,
                 THEN conjunct2, THEN conjunct2, THEN conjunct2, THEN mp]
  have e1: "request_symbols example_unicode (Some (ustr '' ,  , '')) = []"
    using b1 by (rule blank)
  have e2: "request_symbols example_unicode (Some [160, 44, 133, 32]) = []"
    using b2 by (rule blank)
  have e3: "request_symbols example_unicode None = []"
    by (rule missing_symbols_is_400[THEN conjunct2, THEN conjunct2, THEN conjunct2,
                 THEN conjunct2, THEN conjunct1])
  have r1: "do_GET example_str_float example_unicode example_upstream (Some (ustr '' ,  , '')) =
       ([], Inr \<lparr>status = 400,
                 headers = [(''Content-Type'', ''application/json; charset=utf-8'')],
                 body = ErrorObject [(''error'', ''missing_symbols'')]\<rparr>)"
    using e1 by (rule missing_symbols_is_400[THEN conjunct1, THEN mp])
  have r2: "do_GET example_str_float example_unicode failing_batch_upstream None =
       ([], Inr \<lparr>status = 400,
                 headers = [(''Content-Type'', ''application/json; charset=utf-8'')],
                 body = ErrorObject [(''error'', ''missing_symbols'')]\<rparr>)"
    using e3 by (rule missing_symbols_is_400[THEN conjunct1, THEN mp])
  have "(fst (do_GET example_str_float example_unicode example_upstream (Some (ustr ''aapl''))) = [])
          = (request_symbols example_unicode (Some (ustr ''aapl'')) = [])"
    by (rule missing_symbols_is_400[THEN conjunct2, THEN conjunct2, THEN conjunct2,
                 THEN conjunct1])
  with n have c: "fst (do_GET example_str_float example_unicode example_upstream
                          (Some (ustr ''aapl''))) \<noteq> []"
    by simp
  show ?thesis
    by (intro conjI) (rule e1 e2 r1 r2 c)+
qed

end
